theory Spec2Isabelle
  imports Main "HOL-Library.Word" "HOL-Library.AList"
begin

section \<open>Documents\<close>

text \<open>
  A configuration document is what \<^verbatim>\<open>yaml.safe_load\<close> / \<^verbatim>\<open>json.loads\<close> hand to the
  application: a tree of dicts, lists and scalars. A Python \<^verbatim>\<open>float\<close> is carried as its
  64 bits (no function below inspects it). A Python \<^verbatim>\<open>dict\<close> is an association list in
  insertion order; keys are strings. A Python \<^verbatim>\<open>str\<close> is a \<^typ>\<open>string\<close>, one
  \<^typ>\<open>char\<close> per code point, so only code points below 256 are represented.
\<close>

datatype pyval =
    PNone
  | PBool bool
  | PInt int
  | PFloat "64 word"
  | PStr string
  | PList "pyval list"
  | PDict "(string \<times> pyval) list"

text \<open>The two classes that \<^verbatim>\<open>REQUIRED_FIELDS\<close> passes to \<^verbatim>\<open>isinstance\<close>.\<close>

datatype pytype = TInt | TStr

text \<open>\<^verbatim>\<open>isinstance(val, int)\<close> holds for \<^verbatim>\<open>bool\<close> too: \<^verbatim>\<open>bool\<close> is a subclass of \<^verbatim>\<open>int\<close>.\<close>

fun isinstance :: "pyval \<Rightarrow> pytype \<Rightarrow> bool" where
  "isinstance (PInt i) TInt = True"
| "isinstance (PBool b) TInt = True"
| "isinstance (PStr s) TStr = True"
| "isinstance v t = False"

text \<open>\<^verbatim>\<open>expected_type.__name__\<close>\<close>

fun type_name :: "pytype \<Rightarrow> string" where
  "type_name TInt = ''int''"
| "type_name TStr = ''str''"

text \<open>The integer a value compares as when it is an instance of \<^verbatim>\<open>int\<close>
  (\<^verbatim>\<open>True\<close> is 1, \<^verbatim>\<open>False\<close> is 0); \<open>None\<close> when it is not an instance.\<close>

fun as_int :: "pyval \<Rightarrow> int option" where
  "as_int (PInt i) = Some i"
| "as_int (PBool b) = Some (if b then 1 else 0)"
| "as_int v = None"

fun as_str :: "pyval \<Rightarrow> string option" where
  "as_str (PStr s) = Some s"
| "as_str v = None"

section \<open>Strings\<close>

text \<open>\<^verbatim>\<open>path.split(".")\<close>: the pieces between separators; never the empty list.\<close>

fun split_on :: "char \<Rightarrow> string \<Rightarrow> string list" where
  "split_on sep [] = [[]]"
| "split_on sep (c # cs) =
     (if c = sep then [] # split_on sep cs
      else (case split_on sep cs of
              [] \<Rightarrow> [[c]]
            | w # ws \<Rightarrow> (c # w) # ws))"

text \<open>The code points below 256 for which \<^verbatim>\<open>str.isspace\<close> is true; \<^verbatim>\<open>str.strip()\<close>
  removes them from both ends.\<close>

definition py_isspace :: "char \<Rightarrow> bool" where
  "py_isspace c \<longleftrightarrow>
     (of_char c :: nat) \<in> set [9, 10, 11, 12, 13, 28, 29, 30, 31, 32, 133, 160]"

definition strip :: "string \<Rightarrow> string" where
  "strip s = rev (dropWhile py_isspace (rev (dropWhile py_isspace s)))"

text \<open>\<^verbatim>\<open>sub in s\<close> for strings.\<close>

fun startswith :: "string \<Rightarrow> string \<Rightarrow> bool" where
  "startswith s [] = True"
| "startswith [] (p # ps) = False"
| "startswith (c # cs) (p # ps) = (c = p \<and> startswith cs ps)"

fun contains :: "string \<Rightarrow> string \<Rightarrow> bool" where
  "contains [] sub = (sub = [])"
| "contains (c # cs) sub = (startswith (c # cs) sub \<or> contains cs sub)"

section \<open>Validation (app/validation.py)\<close>

definition REQUIRED_FIELDS :: "(string \<times> pytype) list" where
  "REQUIRED_FIELDS =
     [(''version'', TInt), (''database.host'', TStr), (''database.port'', TInt)]"

text \<open>The loop body of \<^verbatim>\<open>_dig\<close>: \<^verbatim>\<open>None\<close> as soon as the current value is not a dict
  or lacks the key. A key stored with the value \<^verbatim>\<open>None\<close> gives \<^verbatim>\<open>None\<close> as well.\<close>

fun dig_parts :: "pyval \<Rightarrow> string list \<Rightarrow> pyval" where
  "dig_parts cur [] = cur"
| "dig_parts (PDict kvs) (part # parts) =
     (case map_of kvs part of
        None \<Rightarrow> PNone
      | Some v \<Rightarrow> dig_parts v parts)"
| "dig_parts cur (part # parts) = PNone"

definition dig :: "pyval \<Rightarrow> string \<Rightarrow> pyval" where
  "dig d path = dig_parts d (split_on CHR ''.'' path)"

text \<open>One iteration of the loop over \<^verbatim>\<open>REQUIRED_FIELDS\<close>, on the error list so far.\<close>

definition check_field :: "pyval \<Rightarrow> string list \<Rightarrow> string \<times> pytype \<Rightarrow> string list" where
  "check_field doc errors field =
     (case field of (path, expected_type) \<Rightarrow>
        (let val = dig doc path in
         if val = PNone \<and> path \<noteq> ''version''
         then errors @ [''Missing required field: '' @ path]
         else if val \<noteq> PNone \<and> \<not> isinstance val expected_type
         then errors @ [''Invalid type for '' @ path @ '': expected '' @ type_name expected_type]
         else errors))"

definition check_port :: "pyval \<Rightarrow> string list \<Rightarrow> string list" where
  "check_port doc errors =
     (case as_int (dig doc ''database.port'') of
        None \<Rightarrow> errors
      | Some port \<Rightarrow>
          if \<not> (1 \<le> port \<and> port \<le> 65535)
          then errors @ [''Invalid database.port: must be 1..65535'']
          else errors)"

definition check_host :: "pyval \<Rightarrow> string list \<Rightarrow> string list" where
  "check_host doc errors =
     (case as_str (dig doc ''database.host'') of
        None \<Rightarrow> errors
      | Some host \<Rightarrow>
          if strip host = []
          then errors @ [''Invalid database.host: must be non-empty string'']
          else errors)"

definition validate_config_payload :: "pyval \<Rightarrow> string list" where
  "validate_config_payload doc =
     check_host doc (check_port doc (foldl (check_field doc) [] REQUIRED_FIELDS))"

text \<open>The specification's reading of a dotted path: it is present with value \<open>v\<close> when
  descending through nested maps along the keys reaches \<open>v\<close>; it is absent when a key is
  missing or an intermediate value is not a map.\<close>

fun spec_resolve :: "pyval \<Rightarrow> string list \<Rightarrow> pyval option" where
  "spec_resolve cur [] = Some cur"
| "spec_resolve (PDict kvs) (k # ks) =
     (case map_of kvs k of
        None \<Rightarrow> None
      | Some v \<Rightarrow> spec_resolve v ks)"
| "spec_resolve cur (k # ks) = None"

text \<open>The specification's reading of the expected scalar types: a document node is a
  tagged union, an integer is an integer node and a string is a string node.\<close>

fun spec_has_type :: "pyval \<Rightarrow> pytype \<Rightarrow> bool" where
  "spec_has_type (PInt i) TInt = True"
| "spec_has_type (PStr s) TStr = True"
| "spec_has_type v t = False"

section \<open>Exceptions and responses (app/errors.py, app/api.py)\<close>

text \<open>The exceptions of app/errors.py, the two built-in ones the code raises itself,
  what the database driver raises, and any other exception that comes out of a library
  call (named by its class). The table declaration is not part of the sources; the three
  database failures are the ones the model of the store below produces.\<close>

datatype db_error = UniqueViolation | DatatypeMismatch | InvalidRowCount

datatype exn =
    BadRequest string
  | UnprocessableEntity "string list"
  | NotFound
  | ValueError string
  | AssertionError
  | DatabaseError db_error
  | OtherException string

text \<open>A response is the status code and the body handed to \<^verbatim>\<open>json.dumps\<close>.\<close>

type_synonym http_response = "nat \<times> pyval"

definition json_response :: "nat \<Rightarrow> pyval \<Rightarrow> http_response" where
  "json_response status body = (status, if body = PNone then PDict [] else body)"

fun handle_errors :: "exn \<Rightarrow> http_response" where
  "handle_errors (BadRequest msg) = json_response 400 (PDict [(''error'', PStr msg)])"
| "handle_errors (UnprocessableEntity errors) =
     json_response 422 (PDict [(''errors'', PList (map PStr errors))])"
| "handle_errors NotFound = json_response 404 (PDict [(''error'', PStr ''service not found'')])"
| "handle_errors err = json_response 500 (PDict [(''error'', PStr ''internal server error'')])"

section \<open>Templating (app/templating.py)\<close>

text \<open>
  \<^verbatim>\<open>env.from_string(val).render\<close>, applied to the context, is a call into the Jinja2
  library, which is not part of the sources. An engine stands for that call: it maps a
  template string and a context to what the call does, which is one of three things. It
  returns the rendered text; or it raises an exception of the library's
  \<^verbatim>\<open>TemplateError\<close> hierarchy (syntax errors and undefined names are both in it), carrying
  a message; or it raises an exception outside that hierarchy, as Python code run by the
  template can (\<^verbatim>\<open>ZeroDivisionError\<close>, \<^verbatim>\<open>TypeError\<close>), named here by its class.
\<close>

datatype jinja_outcome = Rendered string | TemplateError string | Raised string

type_synonym tpl_context = "(string \<times> pyval) list"

type_synonym engine = "string \<Rightarrow> tpl_context \<Rightarrow> jinja_outcome"

definition has_tpl :: "string \<Rightarrow> bool" where
  "has_tpl val \<longleftrightarrow> contains val ''{{'' \<or> contains val ''{%''"

fun render :: "engine \<Rightarrow> pyval \<Rightarrow> tpl_context \<Rightarrow> exn + pyval"
  and render_list :: "engine \<Rightarrow> pyval list \<Rightarrow> tpl_context \<Rightarrow> exn + pyval list"
  and render_items :: "engine \<Rightarrow> (string \<times> pyval) list \<Rightarrow> tpl_context \<Rightarrow> exn + (string \<times> pyval) list"
where
  "render jinja (PStr val) ctx =
     (if has_tpl val
      then (case jinja val ctx of
              Rendered out \<Rightarrow> Inr (PStr out)
            | TemplateError e \<Rightarrow> Inl (ValueError (''Template render error: '' @ e))
            | Raised x \<Rightarrow> Inl (OtherException x))
      else Inr (PStr val))"
| "render jinja (PList xs) ctx =
     (case render_list jinja xs ctx of
        Inl e \<Rightarrow> Inl e
      | Inr ys \<Rightarrow> Inr (PList ys))"
| "render jinja (PDict kvs) ctx =
     (case render_items jinja kvs ctx of
        Inl e \<Rightarrow> Inl e
      | Inr kvs' \<Rightarrow> Inr (PDict kvs'))"
| "render jinja PNone ctx = Inr PNone"
| "render jinja (PBool b) ctx = Inr (PBool b)"
| "render jinja (PInt i) ctx = Inr (PInt i)"
| "render jinja (PFloat x) ctx = Inr (PFloat x)"
| "render_list jinja [] ctx = Inr []"
| "render_list jinja (x # xs) ctx =
     (case render jinja x ctx of
        Inl e \<Rightarrow> Inl e
      | Inr y \<Rightarrow>
          (case render_list jinja xs ctx of
             Inl e \<Rightarrow> Inl e
           | Inr ys \<Rightarrow> Inr (y # ys)))"
| "render_items jinja [] ctx = Inr []"
| "render_items jinja ((k, v) # kvs) ctx =
     (case render jinja v ctx of
        Inl e \<Rightarrow> Inl e
      | Inr v' \<Rightarrow>
          (case render_items jinja kvs ctx of
             Inl e \<Rightarrow> Inl e
           | Inr kvs' \<Rightarrow> Inr ((k, v') # kvs')))"

fun is_dict :: "pyval \<Rightarrow> bool" where
  "is_dict (PDict kvs) = True"
| "is_dict v = False"

definition render_config :: "engine \<Rightarrow> pyval \<Rightarrow> tpl_context \<Rightarrow> exn + pyval" where
  "render_config jinja data ctx =
     (case render jinja data ctx of
        Inl e \<Rightarrow> Inl e
      | Inr rendered \<Rightarrow> if is_dict rendered then Inr rendered else Inl AssertionError)"


subsection \<open>The specification's vocabulary for rendering\<close>

text \<open>The string leaves that carry a template marker, in the order of the traversal.\<close>

fun tpl_leaves :: "pyval \<Rightarrow> string list"
  and tpl_leaves_list :: "pyval list \<Rightarrow> string list"
  and tpl_leaves_items :: "(string \<times> pyval) list \<Rightarrow> string list"
where
  "tpl_leaves (PStr s) = (if has_tpl s then [s] else [])"
| "tpl_leaves (PList xs) = tpl_leaves_list xs"
| "tpl_leaves (PDict kvs) = tpl_leaves_items kvs"
| "tpl_leaves PNone = []"
| "tpl_leaves (PBool b) = []"
| "tpl_leaves (PInt i) = []"
| "tpl_leaves (PFloat x) = []"
| "tpl_leaves_list [] = []"
| "tpl_leaves_list (x # xs) = tpl_leaves x @ tpl_leaves_list xs"
| "tpl_leaves_items [] = []"
| "tpl_leaves_items ((k, v) # kvs) = tpl_leaves v @ tpl_leaves_items kvs"

text \<open>What the engine does on the first leaf, in that order, on which it raises.\<close>

fun first_failure :: "engine \<Rightarrow> tpl_context \<Rightarrow> string list \<Rightarrow> jinja_outcome option" where
  "first_failure jinja ctx [] = None"
| "first_failure jinja ctx (s # ss) =
     (case jinja s ctx of
        Rendered out \<Rightarrow> first_failure jinja ctx ss
      | failure \<Rightarrow> Some failure)"

text \<open>The document with every marked string leaf \<open>s\<close> replaced by \<open>f s\<close> and nothing else
  touched.\<close>

fun spec_replace :: "(string \<Rightarrow> string) \<Rightarrow> pyval \<Rightarrow> pyval"
  and spec_replace_list :: "(string \<Rightarrow> string) \<Rightarrow> pyval list \<Rightarrow> pyval list"
  and spec_replace_items :: "(string \<Rightarrow> string) \<Rightarrow> (string \<times> pyval) list \<Rightarrow> (string \<times> pyval) list"
where
  "spec_replace f (PStr s) = (if has_tpl s then PStr (f s) else PStr s)"
| "spec_replace f (PList xs) = PList (spec_replace_list f xs)"
| "spec_replace f (PDict kvs) = PDict (spec_replace_items f kvs)"
| "spec_replace f PNone = PNone"
| "spec_replace f (PBool b) = PBool b"
| "spec_replace f (PInt i) = PInt i"
| "spec_replace f (PFloat x) = PFloat x"
| "spec_replace_list f [] = []"
| "spec_replace_list f (x # xs) = spec_replace f x # spec_replace_list f xs"
| "spec_replace_items f [] = []"
| "spec_replace_items f ((k, v) # kvs) = (k, spec_replace f v) # spec_replace_items f kvs"

text \<open>The text an engine produces for a template under a context (the template itself
  where the engine raises).\<close>

definition evaluation :: "engine \<Rightarrow> tpl_context \<Rightarrow> string \<Rightarrow> string" where
  "evaluation jinja ctx s = (case jinja s ctx of Rendered out \<Rightarrow> out | failure \<Rightarrow> s)"

text \<open>Two documents have the same structure: the same keys in the same order at every
  map, the same length at every sequence, the same non-string scalars; string leaves may
  differ.\<close>

fun same_structure :: "pyval \<Rightarrow> pyval \<Rightarrow> bool"
  and same_structure_list :: "pyval list \<Rightarrow> pyval list \<Rightarrow> bool"
  and same_structure_items :: "(string \<times> pyval) list \<Rightarrow> (string \<times> pyval) list \<Rightarrow> bool"
where
  "same_structure (PStr s) w = (case w of PStr t \<Rightarrow> True | _ \<Rightarrow> False)"
| "same_structure (PList xs) w = (case w of PList ys \<Rightarrow> same_structure_list xs ys | _ \<Rightarrow> False)"
| "same_structure (PDict kvs) w = (case w of PDict kws \<Rightarrow> same_structure_items kvs kws | _ \<Rightarrow> False)"
| "same_structure PNone w = (w = PNone)"
| "same_structure (PBool b) w = (w = PBool b)"
| "same_structure (PInt i) w = (w = PInt i)"
| "same_structure (PFloat x) w = (w = PFloat x)"
| "same_structure_list [] ys = (ys = [])"
| "same_structure_list (x # xs) ys =
     (case ys of [] \<Rightarrow> False | y # ys' \<Rightarrow> same_structure x y \<and> same_structure_list xs ys')"
| "same_structure_items [] kws = (kws = [])"
| "same_structure_items ((k, v) # kvs) kws =
     (case kws of
        [] \<Rightarrow> False
      | (k', w) # kws' \<Rightarrow> k' = k \<and> same_structure v w \<and> same_structure_items kvs kws')"

subsection \<open>The module's environment and the templates it decides\<close>

text \<open>
  Modelled from the spec: template evaluation under strict variable resolution. The
  module builds its engine as \<^verbatim>\<open>Environment(undefined=StrictUndefined, autoescape=False)\<close>.
  The two settings are kept as data, and the library's documented behaviour is written
  out for the templates that need nothing else of it: literal text, references
  \<^verbatim>\<open>{{ name }}\<close> to a context variable, and the division of an integer literal by the
  literal \<^verbatim>\<open>0\<close>. Every other template is left to the rest of the library, a parameter.
\<close>

datatype undefined_class = Undefined | StrictUndefined

record environment =
  env_undefined :: undefined_class
  env_autoescape :: bool

definition env :: environment where
  "env = \<lparr>env_undefined = StrictUndefined, env_autoescape = False\<rparr>"

text \<open>A template of the fragment is a sequence of literal texts, variable references and
  divisions by the literal zero.\<close>

datatype piece = Text string | Var string | ZeroDiv

text \<open>Names: an ASCII letter or underscore, then letters, digits, underscores. The names
  the library gives a meaning of its own (constants, operators, default globals, special
  names) are left to it.\<close>

definition name_start :: "char \<Rightarrow> bool" where
  "name_start c \<longleftrightarrow> c \<in> set ''abcdefghijklmnopqrstuvwxyzABCDEFGHIJKLMNOPQRSTUVWXYZ_''"

definition name_char :: "char \<Rightarrow> bool" where
  "name_char c \<longleftrightarrow> name_start c \<or> c \<in> set ''0123456789''"

definition reserved :: "string list" where
  "reserved =
     [''true'', ''false'', ''none'', ''True'', ''False'', ''None'',
      ''and'', ''or'', ''not'', ''in'', ''is'', ''if'', ''else'',
      ''range'', ''dict'', ''lipsum'', ''cycler'', ''joiner'', ''namespace'',
      ''self'', ''super'', ''loop'', ''caller'', ''varargs'', ''kwargs'', ''context'',
      ''environment'']"

definition valid_name :: "string \<Rightarrow> bool" where
  "valid_name n \<longleftrightarrow>
     (case n of [] \<Rightarrow> False | c # cs \<Rightarrow> name_start c \<and> list_all name_char cs)
     \<and> n \<notin> set reserved"

text \<open>Decimal integer literals as the library's lexer takes them, without digit
  separators: \<^verbatim>\<open>0\<close>, or digits not starting with \<^verbatim>\<open>0\<close>.\<close>

definition int_literal :: "string \<Rightarrow> bool" where
  "int_literal s \<longleftrightarrow>
     s = ''0'' \<or>
     (case s of [] \<Rightarrow> False
      | c # cs \<Rightarrow> c \<in> set ''123456789'' \<and> list_all (\<lambda>d. d \<in> set ''0123456789'') cs)"

definition trim_spaces :: "string \<Rightarrow> string" where
  "trim_spaces s =
     rev (dropWhile (\<lambda>c. c = CHR '' '') (rev (dropWhile (\<lambda>c. c = CHR '' '') s)))"

text \<open>What stands between \<^verbatim>\<open>{{\<close> and \<^verbatim>\<open>}}\<close>: a name, or \<^verbatim>\<open>a / 0\<close> for an integer literal
  \<open>a\<close>. Spaces around the parts are allowed.\<close>

definition parse_expr :: "string \<Rightarrow> piece option" where
  "parse_expr s =
     (if valid_name (trim_spaces s) then Some (Var (trim_spaces s))
      else (case split_on CHR ''/'' s of
              [a, b] \<Rightarrow>
                if int_literal (trim_spaces a) \<and> trim_spaces b = ''0'' then Some ZeroDiv
                else None
            | _ \<Rightarrow> None))"

definition text_piece :: "string \<Rightarrow> piece list" where
  "text_piece acc = (if acc = [] then [] else [Text (rev acc)])"

text \<open>The lexer of the fragment; \<open>acc\<close> is the text read so far, reversed. A template with a
  statement or comment opener, an unclosed or unrecognised expression, or a line break
  (the library rewrites line breaks) is not of the fragment.\<close>

fun lex_text :: "string \<Rightarrow> string \<Rightarrow> piece list option"
  and lex_expr :: "string \<Rightarrow> string \<Rightarrow> piece list option"
where
  "lex_text acc [] = Some (text_piece acc)"
| "lex_text acc [c] =
     (if c = CHR 0x0A \<or> c = CHR 0x0D then None else Some (text_piece (c # acc)))"
| "lex_text acc (c # d # cs) =
     (if c = CHR 0x0A \<or> c = CHR 0x0D then None
      else if c = CHR ''{'' \<and> d = CHR ''{''
      then (case lex_expr [] cs of
              None \<Rightarrow> None
            | Some ps \<Rightarrow> Some (text_piece acc @ ps))
      else if c = CHR ''{'' \<and> (d = CHR ''%'' \<or> d = CHR ''#'') then None
      else lex_text (c # acc) (d # cs))"
| "lex_expr acc [] = None"
| "lex_expr acc [c] = None"
| "lex_expr acc (c # d # cs) =
     (if c = CHR ''}'' \<and> d = CHR ''}''
      then (case parse_expr (rev acc) of
              None \<Rightarrow> None
            | Some p \<Rightarrow>
                (case lex_text [] cs of
                   None \<Rightarrow> None
                 | Some ps \<Rightarrow> Some (p # ps)))
      else if c = CHR ''}'' \<or> c = CHR ''{'' \<or> c = CHR 0x0A \<or> c = CHR 0x0D then None
      else lex_expr (c # acc) (d # cs))"

text \<open>\<^verbatim>\<open>str(value)\<close>, which is what an expression's value is output as when autoescaping
  is off, for strings, booleans, \<^verbatim>\<open>None\<close> and integers of up to 18 digits.\<close>

function show_nat :: "nat \<Rightarrow> string" where
  "show_nat n =
     (if n < 10 then [''0123456789'' ! n]
      else show_nat (n div 10) @ [''0123456789'' ! (n mod 10)])"
  by pat_completeness auto
termination
  by (relation "measure id") auto

fun to_text :: "pyval \<Rightarrow> string option" where
  "to_text (PStr s) = Some s"
| "to_text (PInt i) =
     (if \<bar>i\<bar> < 10 ^ 18
      then Some (if i < 0 then CHR ''-'' # show_nat (nat (- i)) else show_nat (nat i))
      else None)"
| "to_text (PBool b) = Some (if b then ''True'' else ''False'')"
| "to_text PNone = Some ''None''"
| "to_text v = None"

fun prepend :: "string \<Rightarrow> jinja_outcome option \<Rightarrow> jinja_outcome option" where
  "prepend s (Some (Rendered out)) = Some (Rendered (s @ out))"
| "prepend s other = other"

text \<open>The pieces are output from left to right. A name that the context lacks gives an
  undefined value: output as the empty text by the library's default class, and raising
  \<^verbatim>\<open>UndefinedError\<close>, a \<^verbatim>\<open>TemplateError\<close>, when it is output under \<^verbatim>\<open>StrictUndefined\<close>.\<close>

fun eval_pieces :: "environment \<Rightarrow> tpl_context \<Rightarrow> piece list \<Rightarrow> jinja_outcome option" where
  "eval_pieces e ctx [] = Some (Rendered [])"
| "eval_pieces e ctx (Text t # ps) = prepend t (eval_pieces e ctx ps)"
| "eval_pieces e ctx (Var n # ps) =
     (case map_of ctx n of
        None \<Rightarrow>
          (case env_undefined e of
             StrictUndefined \<Rightarrow> Some (TemplateError (CHR 0x27 # n @ CHR 0x27 # '' is undefined''))
           | Undefined \<Rightarrow> eval_pieces e ctx ps)
      | Some v \<Rightarrow>
          (case to_text v of
             None \<Rightarrow> None
           | Some t \<Rightarrow> prepend t (eval_pieces e ctx ps)))"
| "eval_pieces e ctx (ZeroDiv # ps) = Some (Raised ''ZeroDivisionError'')"

text \<open>The fragment as a whole. \<^verbatim>\<open>render(**context)\<close> passes the context as keyword
  arguments of a method whose first parameter is \<^verbatim>\<open>self\<close>: a context with that key is a
  \<^verbatim>\<open>TypeError\<close> of the call itself, after the template has been compiled.\<close>

definition fragment :: "environment \<Rightarrow> string \<Rightarrow> tpl_context \<Rightarrow> jinja_outcome option" where
  "fragment e val ctx =
     (if env_autoescape e then None
      else (case lex_text [] val of
              None \<Rightarrow> None
            | Some ps \<Rightarrow>
                if ''self'' \<in> set (map fst ctx)
                then Some (Raised ''TypeError'')
                else eval_pieces e ctx ps))"

text \<open>The engine of an environment: the fragment where it decides, the rest of the library
  elsewhere.\<close>

definition jinja2 :: "environment \<Rightarrow> engine \<Rightarrow> engine" where
  "jinja2 e library val ctx =
     (case fragment e val ctx of
        Some outcome \<Rightarrow> outcome
      | None \<Rightarrow> library val ctx)"

text \<open>For statements without free variables: a library that is never consulted by them, as
  their templates are of the fragment.\<close>

definition no_library :: engine where
  "no_library val ctx = Raised ''not of the fragment''"

section \<open>The configuration store (app/db.py)\<close>

text \<open>
  Modelled from the spec: the \<^verbatim>\<open>configurations\<close> table, whose declaration is not part of
  the sources. A row is \<open>(id, service, version, payload, created_at)\<close>; \<open>version\<close> is an
  integer column; \<open>(service, version)\<close> is unique, enforced by the store;
  \<open>created_at\<close> is assigned by the store when the row is persisted (here: the store's
  clock reading \<open>now\<close>, a parameter of the insert).
\<close>

record config_row =
  row_id :: nat
  row_service :: string
  row_version :: int
  row_payload :: pyval
  row_created_at :: int

type_synonym store = "config_row list"

text \<open>\<^verbatim>\<open>INSERT INTO configurations(service, version, payload) VALUES (...) RETURNING id\<close>.
  The driver sends a Python \<^verbatim>\<open>int\<close> as an integer literal; any other value does not fit
  the integer column. The model refuses an insert for these two reasons only: a version
  that is not an integer, and a \<open>(service, version)\<close> that is taken. The store has further
  reasons, which are not modelled: a payload whose \<^verbatim>\<open>json.dumps\<close> text the \<^verbatim>\<open>::jsonb\<close> cast
  rejects (a non-finite float), and an integer outside the column's range; such an insert
  raises and writes nothing. So every insert the store accepts is accepted here, with the
  same row but for its id, which is the store sequence's business: the model numbers rows
  by position, and no claim below depends on the id of a row.\<close>

definition insert_config :: "store \<Rightarrow> int \<Rightarrow> string \<Rightarrow> pyval \<Rightarrow> pyval \<Rightarrow> (exn + nat) \<times> store" where
  "insert_config st now service version payload =
     (case version of
        PInt v \<Rightarrow>
          if (service, v) \<in> set (map (\<lambda>r. (row_service r, row_version r)) st)
          then (Inl (DatabaseError UniqueViolation), st)
          else (Inr (Suc (length st)),
                st @ [\<lparr>row_id = Suc (length st), row_service = service, row_version = v,
                       row_payload = payload, row_created_at = now\<rparr>])
      | _ \<Rightarrow> (Inl (DatabaseError DatatypeMismatch), st))"

text \<open>SQL \<^verbatim>\<open>MAX\<close> over a column: \<^verbatim>\<open>NULL\<close> on no rows.\<close>

fun sql_max :: "int list \<Rightarrow> int option" where
  "sql_max [] = None"
| "sql_max (v # vs) = (case sql_max vs of None \<Rightarrow> Some v | Some m \<Rightarrow> Some (max v m))"

definition service_rows :: "store \<Rightarrow> string \<Rightarrow> config_row list" where
  "service_rows st service = filter (\<lambda>r. row_service r = service) st"

definition get_latest_version :: "store \<Rightarrow> string \<Rightarrow> int option" where
  "get_latest_version st service = sql_max (map row_version (service_rows st service))"

text \<open>The specification's rule for a submission without a version: 1 when the store holds
  no row for the service, the largest version of its rows plus 1 otherwise.\<close>

definition spec_next_version :: "store \<Rightarrow> string \<Rightarrow> int" where
  "spec_next_version st service =
     (let versions = [row_version r. r \<leftarrow> st, row_service r = service]
      in if versions = [] then 1 else Max (set versions) + 1)"

text \<open>\<^verbatim>\<open>... WHERE service=%s ORDER BY created_at DESC LIMIT %s\<close>. SQL leaves the order of rows
  with equal \<open>created_at\<close> open; the model keeps them in insertion order. A negative
  \<^verbatim>\<open>LIMIT\<close> is an error of the store. The rendering of the timestamp by \<^verbatim>\<open>to_char\<close> is a
  parameter.\<close>

definition history_rows :: "store \<Rightarrow> string \<Rightarrow> nat \<Rightarrow> config_row list" where
  "history_rows st service n =
     take n (sort_key (\<lambda>r. - row_created_at r) (service_rows st service))"

definition get_history :: "(int \<Rightarrow> string) \<Rightarrow> store \<Rightarrow> string \<Rightarrow> int \<Rightarrow> exn + (int \<times> string) list" where
  "get_history to_char st service limit =
     (if limit < 0 then Inl (DatabaseError InvalidRowCount)
      else Inr (map (\<lambda>r. (row_version r, to_char (row_created_at r)))
                  (history_rows st service (nat limit))))"

section \<open>Endpoints (app/api.py)\<close>

text \<open>\<^verbatim>\<open>data.get("version")\<close>\<close>

definition dict_get :: "(string \<times> pyval) list \<Rightarrow> string \<Rightarrow> pyval" where
  "dict_get items k = (case map_of items k of None \<Rightarrow> PNone | Some v \<Rightarrow> v)"

text \<open>The last two statements of \<^verbatim>\<open>post_config\<close>: the insert and the response body.\<close>

definition save :: "store \<Rightarrow> int \<Rightarrow> string \<Rightarrow> pyval \<Rightarrow> pyval \<Rightarrow> (exn + pyval) \<times> store" where
  "save st now service version data =
     (case insert_config st now service version data of
        (Inl e, st') \<Rightarrow> (Inl e, st')
      | (Inr new_id, st') \<Rightarrow>
          (Inr (PDict [(''service'', PStr service), (''version'', version),
                       (''status'', PStr ''saved'')]), st'))"

text \<open>
  \<^verbatim>\<open>post_config\<close> from the parsed body on (reading the body and parsing the YAML are
  outside the model). The handler suspends at each \<^verbatim>\<open>yield\<close>; \<open>others\<close> is what concurrent
  requests do to the store between the read of the maximum and the insert, the identity
  when the request runs alone. The result is the exception raised or the response body,
  and the store afterwards.
\<close>

definition post_config :: "(store \<Rightarrow> store) \<Rightarrow> store \<Rightarrow> int \<Rightarrow> string \<Rightarrow> pyval \<Rightarrow> (exn + pyval) \<times> store" where
  "post_config others st now service data =
     (case data of
        PDict items \<Rightarrow>
          (let errors = validate_config_payload data in
           if errors \<noteq> [] then (Inl (UnprocessableEntity errors), st)
           else if dict_get items ''version'' = PNone
           then (let maxv = get_latest_version st service;
                     version = (case maxv of None \<Rightarrow> 1 | Some m \<Rightarrow> m + 1)
                 in save (others st) now service (PInt version)
                      (PDict (AList.update ''version'' (PInt version) items)))
           else save st now service (dict_get items ''version'') data)
      | _ \<Rightarrow> (Inl (BadRequest ''YAML must represent a mapping (object)''), st))"

definition post_config_route :: "(store \<Rightarrow> store) \<Rightarrow> store \<Rightarrow> int \<Rightarrow> string \<Rightarrow> pyval \<Rightarrow> http_response \<times> store" where
  "post_config_route others st now service data =
     (case post_config others st now service data of
        (Inl e, st') \<Rightarrow> (handle_errors e, st')
      | (Inr body, st') \<Rightarrow> (json_response 200 body, st'))"

definition get_history_route :: "(int \<Rightarrow> string) \<Rightarrow> store \<Rightarrow> string \<Rightarrow> http_response" where
  "get_history_route to_char st service =
     (case get_history to_char st service 50 of
        Inl e \<Rightarrow> handle_errors e
      | Inr items \<Rightarrow>
          json_response 200
            (PList (map (\<lambda>(v, ts). PDict [(''version'', PInt v), (''created_at'', PStr ts)]) items)))"

section \<open>Validation: facts\<close>

lemma split_version: "split_on CHR ''.'' ''version'' = [''version'']"
  by simp

lemma split_host: "split_on CHR ''.'' ''database.host'' = [''database'', ''host'']"
  by simp

lemma split_port: "split_on CHR ''.'' ''database.port'' = [''database'', ''port'']"
  by simp

lemma dig_parts_resolve:
  "dig_parts d ks = (case spec_resolve d ks of None \<Rightarrow> PNone | Some v \<Rightarrow> v)"
  by (induction d ks rule: spec_resolve.induct) (auto split: option.splits)

lemma check_field_append:
  "check_field doc errors f = errors @ check_field doc [] f"
  by (cases f) (simp add: check_field_def Let_def)

lemma check_port_append: "check_port doc errors = errors @ check_port doc []"
  by (simp add: check_port_def split: option.splits)

lemma check_host_append: "check_host doc errors = errors @ check_host doc []"
  by (simp add: check_host_def split: option.splits)

lemma validate_unfold:
  "validate_config_payload doc =
     check_field doc [] (''version'', TInt) @
     check_field doc [] (''database.host'', TStr) @
     check_field doc [] (''database.port'', TInt) @
     check_port doc [] @ check_host doc []"
proof -
  let ?v = "check_field doc [] (''version'', TInt)"
  let ?h = "check_field doc [] (''database.host'', TStr)"
  let ?p = "check_field doc [] (''database.port'', TInt)"
  have "foldl (check_field doc) [] REQUIRED_FIELDS =
      check_field doc (check_field doc ?v (''database.host'', TStr)) (''database.port'', TInt)"
    by (simp add: REQUIRED_FIELDS_def)
  also have "\<dots> = check_field doc (?v @ ?h) (''database.port'', TInt)"
    by (subst check_field_append [of doc ?v]) (rule refl)
  also have "\<dots> = (?v @ ?h) @ ?p"
    by (rule check_field_append)
  finally have loop: "foldl (check_field doc) [] REQUIRED_FIELDS = (?v @ ?h) @ ?p" .
  have "validate_config_payload doc = check_port doc ((?v @ ?h) @ ?p) @ check_host doc []"
    unfolding validate_config_payload_def loop by (rule check_host_append)
  also have "check_port doc ((?v @ ?h) @ ?p) = ((?v @ ?h) @ ?p) @ check_port doc []"
    by (rule check_port_append)
  finally show ?thesis by simp
qed

lemma strip_empty_iff: "strip s = [] \<longleftrightarrow> (\<forall>c \<in> set s. py_isspace c)"
proof -
  have "strip s = [] \<longleftrightarrow> (\<forall>c \<in> set (dropWhile py_isspace s). py_isspace c)"
    by (simp add: strip_def dropWhile_eq_Nil_conv)
  also have "\<dots> \<longleftrightarrow> dropWhile py_isspace s = []"
    by (metis dropWhile_eq_Nil_conv hd_dropWhile list.set_sel(1) empty_iff list.set(1))
  finally show ?thesis by (simp add: dropWhile_eq_Nil_conv)
qed

lemma version_msgs:
  "check_field doc [] (''version'', TInt) =
     (if dig doc ''version'' \<noteq> PNone \<and> \<not> isinstance (dig doc ''version'') TInt
      then [''Invalid type for version: expected int''] else [])"
  by (simp add: check_field_def Let_def)

lemma host_msgs:
  "check_field doc [] (''database.host'', TStr) =
     (if dig doc ''database.host'' = PNone then [''Missing required field: database.host'']
      else if \<not> isinstance (dig doc ''database.host'') TStr
      then [''Invalid type for database.host: expected str''] else [])"
  by (simp add: check_field_def Let_def)

lemma port_msgs:
  "check_field doc [] (''database.port'', TInt) =
     (if dig doc ''database.port'' = PNone then [''Missing required field: database.port'']
      else if \<not> isinstance (dig doc ''database.port'') TInt
      then [''Invalid type for database.port: expected int''] else [])"
  by (simp add: check_field_def Let_def)

lemma port_range_msgs:
  "check_port doc [] =
     (if \<exists>p. as_int (dig doc ''database.port'') = Some p \<and> \<not> (1 \<le> p \<and> p \<le> 65535)
      then [''Invalid database.port: must be 1..65535''] else [])"
  by (auto simp: check_port_def split: option.splits)

lemma host_blank_msgs:
  "check_host doc [] =
     (if \<exists>h. as_str (dig doc ''database.host'') = Some h \<and> (\<forall>c \<in> set h. py_isspace c)
      then [''Invalid database.host: must be non-empty string''] else [])"
  by (auto simp: check_host_def strip_empty_iff split: option.splits)

lemmas validate_msgs =
  validate_unfold version_msgs host_msgs port_msgs port_range_msgs host_blank_msgs

lemma dig_resolve:
  "spec_resolve doc (split_on CHR ''.'' path) = Some v \<Longrightarrow> dig doc path = v"
  by (simp add: dig_def dig_parts_resolve)

lemma dig_version_absent: "spec_resolve doc [''version''] = None \<Longrightarrow> dig doc ''version'' = PNone"
  by (simp add: dig_def dig_parts_resolve)

lemma missing_version_never:
  "''Missing required field: version'' \<notin> set (validate_config_payload doc)"
  by (simp add: validate_msgs)

lemma missing_host_iff:
  "''Missing required field: database.host'' \<in> set (validate_config_payload doc)
     \<longleftrightarrow> dig doc ''database.host'' = PNone"
  by (simp add: validate_msgs)

lemma missing_port_iff:
  "''Missing required field: database.port'' \<in> set (validate_config_payload doc)
     \<longleftrightarrow> dig doc ''database.port'' = PNone"
  by (simp add: validate_msgs)

lemma type_version_iff:
  "''Invalid type for version: expected int'' \<in> set (validate_config_payload doc)
     \<longleftrightarrow> dig doc ''version'' \<noteq> PNone \<and> \<not> isinstance (dig doc ''version'') TInt"
  by (simp add: validate_msgs)

lemma type_host_iff:
  "''Invalid type for database.host: expected str'' \<in> set (validate_config_payload doc)
     \<longleftrightarrow> dig doc ''database.host'' \<noteq> PNone \<and> \<not> isinstance (dig doc ''database.host'') TStr"
  by (simp add: validate_msgs)

lemma type_port_iff:
  "''Invalid type for database.port: expected int'' \<in> set (validate_config_payload doc)
     \<longleftrightarrow> dig doc ''database.port'' \<noteq> PNone \<and> \<not> isinstance (dig doc ''database.port'') TInt"
  by (simp add: validate_msgs)

lemma range_port_iff:
  "''Invalid database.port: must be 1..65535'' \<in> set (validate_config_payload doc)
     \<longleftrightarrow> (\<exists>p. as_int (dig doc ''database.port'') = Some p \<and> \<not> (1 \<le> p \<and> p \<le> 65535))"
  by (simp add: validate_msgs)

lemma blank_host_iff:
  "''Invalid database.host: must be non-empty string'' \<in> set (validate_config_payload doc)
     \<longleftrightarrow> (\<exists>h. as_str (dig doc ''database.host'') = Some h \<and> (\<forall>c \<in> set h. py_isspace c))"
  by (simp add: validate_msgs)

lemma validate_empty:
  "validate_config_payload (PDict []) =
     [''Missing required field: database.host'', ''Missing required field: database.port'']"
  by (simp add: validate_msgs dig_def)

lemma validate_bools:
  "validate_config_payload
     (PDict [(''version'', PBool True),
             (''database'', PDict [(''host'', PStr ''h''), (''port'', PBool True)])]) = []"
  by (simp add: validate_msgs dig_def py_isspace_def)

lemma validate_x:
  "validate_config_payload
     (PDict [(''version'', PStr ''x''),
             (''database'', PDict [(''host'', PStr ''h''), (''port'', PInt 80)])]) =
   [''Invalid type for version: expected int'']"
  by (simp add: validate_msgs dig_def py_isspace_def)

lemma validate_99999:
  "validate_config_payload
     (PDict [(''database'', PDict [(''host'', PStr ''h''), (''port'', PInt 99999)])]) =
   [''Invalid database.port: must be 1..65535'']"
  by (simp add: validate_msgs dig_def py_isspace_def)

lemma validate_nulls:
  "validate_config_payload
     (PDict [(''version'', PNone),
             (''database'', PDict [(''host'', PNone), (''port'', PInt 80)])]) =
   [''Missing required field: database.host'']"
  by (simp add: validate_msgs dig_def py_isspace_def)

section \<open>Validation: the claims\<close>

text \<open>
  Claim C5, as the code has it. A field of \<^verbatim>\<open>REQUIRED_FIELDS\<close> that resolves along nested
  maps to a value other than \<^verbatim>\<open>None\<close> which is not an instance of the expected class
  (\<^verbatim>\<open>isinstance\<close>, so a boolean counts as an \<^verbatim>\<open>int\<close>) is reported as
  \<^verbatim>\<open>Invalid type for <path>: expected <type>\<close>. An absent \<open>version\<close> produces no message
  about \<open>version\<close>. The document
  \<^verbatim>\<open>{"version": "x", "database": {"host": "h", "port": 80}}\<close> yields exactly
  \<^verbatim>\<open>Invalid type for version: expected int\<close>.
\<close>

theorem wrong_type_reported:
  "((path, t) \<in> set REQUIRED_FIELDS \<and> spec_resolve doc (split_on CHR ''.'' path) = Some v
      \<and> v \<noteq> PNone \<and> \<not> isinstance v t
    \<longrightarrow> (''Invalid type for '' @ path @ '': expected '' @ type_name t)
          \<in> set (validate_config_payload doc))
   \<and> (spec_resolve doc [''version''] = None
    \<longrightarrow> ''Missing required field: version'' \<notin> set (validate_config_payload doc)
        \<and> ''Invalid type for version: expected int'' \<notin> set (validate_config_payload doc))
   \<and> validate_config_payload
        (PDict [(''version'', PStr ''x''),
                (''database'', PDict [(''host'', PStr ''h''), (''port'', PInt 80)])])
      = [''Invalid type for version: expected int'']"
proof (intro conjI impI)
  assume a: "(path, t) \<in> set REQUIRED_FIELDS \<and> spec_resolve doc (split_on CHR ''.'' path) = Some v
      \<and> v \<noteq> PNone \<and> \<not> isinstance v t"
  then have d: "dig doc path = v" by (simp add: dig_resolve)
  from a consider "path = ''version''" "t = TInt" | "path = ''database.host''" "t = TStr"
    | "path = ''database.port''" "t = TInt"
    by (auto simp: REQUIRED_FIELDS_def)
  then show "(''Invalid type for '' @ path @ '': expected '' @ type_name t)
          \<in> set (validate_config_payload doc)"
  proof cases
    case 1
    with a d show ?thesis using type_version_iff [of doc] by simp
  next
    case 2
    with a d show ?thesis using type_host_iff [of doc] by simp
  next
    case 3
    with a d show ?thesis using type_port_iff [of doc] by simp
  qed
next
  show "''Missing required field: version'' \<notin> set (validate_config_payload doc)"
    by (rule missing_version_never)
next
  assume "spec_resolve doc [''version''] = None"
  then show "''Invalid type for version: expected int'' \<notin> set (validate_config_payload doc)"
    by (simp add: type_version_iff dig_version_absent)
next
  show "validate_config_payload
        (PDict [(''version'', PStr ''x''),
                (''database'', PDict [(''host'', PStr ''h''), (''port'', PInt 80)])])
      = [''Invalid type for version: expected int'']"
    by (rule validate_x)
qed

text \<open>The hypotheses of C5 hold for \<^verbatim>\<open>{"database": {"host": 7, "port": 80}}\<close>.\<close>

theorem wrong_type_reported_witness:
  "(''database.host'', TStr) \<in> set REQUIRED_FIELDS
   \<and> spec_resolve (PDict [(''database'', PDict [(''host'', PInt 7), (''port'', PInt 80)])])
        (split_on CHR ''.'' ''database.host'') = Some (PInt 7)
   \<and> PInt 7 \<noteq> PNone \<and> \<not> isinstance (PInt 7) TStr
   \<and> spec_resolve (PDict [(''database'', PDict [(''host'', PInt 7), (''port'', PInt 80)])])
        [''version''] = None
   \<and> ''Invalid type for database.host: expected str''
        \<in> set (validate_config_payload
                 (PDict [(''database'', PDict [(''host'', PInt 7), (''port'', PInt 80)])]))
   \<and> ''Invalid type for version: expected int''
        \<notin> set (validate_config_payload
                 (PDict [(''database'', PDict [(''host'', PInt 7), (''port'', PInt 80)])]))"
  using wrong_type_reported [of "''database.host''" TStr
      "PDict [(''database'', PDict [(''host'', PInt 7), (''port'', PInt 80)])]" "PInt 7"]
  by (simp add: REQUIRED_FIELDS_def)

text \<open>
  Claim C5 as stated fails on \<^verbatim>\<open>null\<close>: in
  \<^verbatim>\<open>{"version": null, "database": {"host": null, "port": 80}}\<close> both \<open>version\<close> and
  \<open>database.host\<close> are present, with a value that is neither an integer nor a string,
  and neither gets an \<^verbatim>\<open>Invalid type\<close> message: \<^verbatim>\<open>_dig\<close> returns \<^verbatim>\<open>None\<close> for a missing
  path and for a stored \<^verbatim>\<open>None\<close> alike.
\<close>

theorem null_field_counterexample:
  "spec_resolve
     (PDict [(''version'', PNone),
             (''database'', PDict [(''host'', PNone), (''port'', PInt 80)])])
     (split_on CHR ''.'' ''version'') = Some PNone
   \<and> \<not> spec_has_type PNone TInt
   \<and> ''Invalid type for version: expected int'' \<notin> set (validate_config_payload
       (PDict [(''version'', PNone),
               (''database'', PDict [(''host'', PNone), (''port'', PInt 80)])]))
   \<and> spec_resolve
     (PDict [(''version'', PNone),
             (''database'', PDict [(''host'', PNone), (''port'', PInt 80)])])
     (split_on CHR ''.'' ''database.host'') = Some PNone
   \<and> \<not> spec_has_type PNone TStr
   \<and> ''Invalid type for database.host: expected str'' \<notin> set (validate_config_payload
       (PDict [(''version'', PNone),
               (''database'', PDict [(''host'', PNone), (''port'', PInt 80)])]))"
  by (simp add: validate_nulls)

text \<open>
  Claim C6. For the empty map the result is the two messages for \<open>database.host\<close> and
  \<open>database.port\<close>, and no document ever gets a missing-version message. Every rule is
  evaluated on its own: each of the seven other messages is in the result exactly when
  its own condition holds, whatever the other rules find.
\<close>

theorem validate_reports_all:
  "validate_config_payload (PDict []) =
     [''Missing required field: database.host'', ''Missing required field: database.port'']
   \<and> ''Missing required field: version'' \<notin> set (validate_config_payload doc)
   \<and> (''Missing required field: database.host'' \<in> set (validate_config_payload doc)
        \<longleftrightarrow> dig doc ''database.host'' = PNone)
   \<and> (''Missing required field: database.port'' \<in> set (validate_config_payload doc)
        \<longleftrightarrow> dig doc ''database.port'' = PNone)
   \<and> (''Invalid type for version: expected int'' \<in> set (validate_config_payload doc)
        \<longleftrightarrow> dig doc ''version'' \<noteq> PNone \<and> \<not> isinstance (dig doc ''version'') TInt)
   \<and> (''Invalid type for database.host: expected str'' \<in> set (validate_config_payload doc)
        \<longleftrightarrow> dig doc ''database.host'' \<noteq> PNone \<and> \<not> isinstance (dig doc ''database.host'') TStr)
   \<and> (''Invalid type for database.port: expected int'' \<in> set (validate_config_payload doc)
        \<longleftrightarrow> dig doc ''database.port'' \<noteq> PNone \<and> \<not> isinstance (dig doc ''database.port'') TInt)
   \<and> (''Invalid database.port: must be 1..65535'' \<in> set (validate_config_payload doc)
        \<longleftrightarrow> (\<exists>p. as_int (dig doc ''database.port'') = Some p \<and> \<not> (1 \<le> p \<and> p \<le> 65535)))
   \<and> (''Invalid database.host: must be non-empty string'' \<in> set (validate_config_payload doc)
        \<longleftrightarrow> (\<exists>h. as_str (dig doc ''database.host'') = Some h \<and> strip h = []))"
  using validate_empty missing_version_never [of doc] missing_host_iff [of doc]
    missing_port_iff [of doc] type_version_iff [of doc] type_host_iff [of doc]
    type_port_iff [of doc] range_port_iff [of doc] blank_host_iff [of doc]
  by (simp only: strip_empty_iff simp_thms)

text \<open>Three violations at once, all three reported:
  \<^verbatim>\<open>{"version": "x", "database": {"host": " ", "port": 0}}\<close>.\<close>

theorem validate_reports_all_witness:
  "''Invalid type for version: expected int'' \<in> set (validate_config_payload
     (PDict [(''version'', PStr ''x''),
             (''database'', PDict [(''host'', PStr '' ''), (''port'', PInt 0)])]))
   \<and> ''Invalid database.port: must be 1..65535'' \<in> set (validate_config_payload
     (PDict [(''version'', PStr ''x''),
             (''database'', PDict [(''host'', PStr '' ''), (''port'', PInt 0)])]))
   \<and> ''Invalid database.host: must be non-empty string'' \<in> set (validate_config_payload
     (PDict [(''version'', PStr ''x''),
             (''database'', PDict [(''host'', PStr '' ''), (''port'', PInt 0)])]))
   \<and> ''Missing required field: database.host'' \<notin> set (validate_config_payload
     (PDict [(''version'', PStr ''x''),
             (''database'', PDict [(''host'', PStr '' ''), (''port'', PInt 0)])]))"
  using validate_reports_all
    [of "PDict [(''version'', PStr ''x''),
                (''database'', PDict [(''host'', PStr '' ''), (''port'', PInt 0)])]"]
  by (simp add: dig_def strip_def py_isspace_def)

text \<open>
  Claim C7. Whatever else the document holds: a \<open>database.port\<close> that is an integer
  outside 1..65535 is reported as \<^verbatim>\<open>Invalid database.port: must be 1..65535\<close>, and a
  \<open>database.host\<close> that is an empty or whitespace-only string is reported as
  \<^verbatim>\<open>Invalid database.host: must be non-empty string\<close>. For
  \<^verbatim>\<open>{"database": {"host": "h", "port": 99999}}\<close> the port message is the whole result.
\<close>

theorem semantic_checks:
  "(spec_resolve doc [''database'', ''port''] = Some (PInt p) \<and> (p < 1 \<or> 65535 < p)
      \<longrightarrow> ''Invalid database.port: must be 1..65535'' \<in> set (validate_config_payload doc))
   \<and> (spec_resolve doc [''database'', ''host''] = Some (PStr h) \<and> (\<forall>c \<in> set h. py_isspace c)
      \<longrightarrow> ''Invalid database.host: must be non-empty string''
            \<in> set (validate_config_payload doc))
   \<and> validate_config_payload
        (PDict [(''database'', PDict [(''host'', PStr ''h''), (''port'', PInt 99999)])])
      = [''Invalid database.port: must be 1..65535'']"
proof (intro conjI impI)
  assume "spec_resolve doc [''database'', ''port''] = Some (PInt p) \<and> (p < 1 \<or> 65535 < p)"
  moreover from this have "dig doc ''database.port'' = PInt p"
    by (simp add: dig_def dig_parts_resolve)
  ultimately show "''Invalid database.port: must be 1..65535'' \<in> set (validate_config_payload doc)"
    by (auto simp: range_port_iff)
next
  assume "spec_resolve doc [''database'', ''host''] = Some (PStr h) \<and> (\<forall>c \<in> set h. py_isspace c)"
  moreover from this have "dig doc ''database.host'' = PStr h"
    by (simp add: dig_def dig_parts_resolve)
  ultimately show "''Invalid database.host: must be non-empty string''
            \<in> set (validate_config_payload doc)"
    by (simp add: blank_host_iff)
next
  show "validate_config_payload
        (PDict [(''database'', PDict [(''host'', PStr ''h''), (''port'', PInt 99999)])])
      = [''Invalid database.port: must be 1..65535'']"
    by (rule validate_99999)
qed

text \<open>Both hypotheses of C7 at \<^verbatim>\<open>{"database": {"host": "  ", "port": 0}}\<close>.\<close>

theorem semantic_checks_witness:
  "spec_resolve (PDict [(''database'', PDict [(''host'', PStr ''  ''), (''port'', PInt 0)])])
     [''database'', ''port''] = Some (PInt 0)
   \<and> spec_resolve (PDict [(''database'', PDict [(''host'', PStr ''  ''), (''port'', PInt 0)])])
     [''database'', ''host''] = Some (PStr ''  '')
   \<and> ''Invalid database.port: must be 1..65535'' \<in> set (validate_config_payload
        (PDict [(''database'', PDict [(''host'', PStr ''  ''), (''port'', PInt 0)])]))
   \<and> ''Invalid database.host: must be non-empty string'' \<in> set (validate_config_payload
        (PDict [(''database'', PDict [(''host'', PStr ''  ''), (''port'', PInt 0)])]))"
  using semantic_checks [of "PDict [(''database'', PDict [(''host'', PStr ''  ''), (''port'', PInt 0)])]" 0 "''  ''"]
  by (simp add: py_isspace_def)

text \<open>
  Claim C10. \<^verbatim>\<open>{"version": true, "database": {"host": "h", "port": true}}\<close> validates
  with no error: \<^verbatim>\<open>isinstance(True, int)\<close> holds and \<^verbatim>\<open>True\<close> compares as 1, inside
  1..65535.
\<close>

theorem booleans_pass_as_integers:
  "validate_config_payload
     (PDict [(''version'', PBool True),
             (''database'', PDict [(''host'', PStr ''h''), (''port'', PBool True)])]) = []
   \<and> isinstance (PBool True) TInt
   \<and> as_int (PBool True) = Some 1"
  by (simp add: validate_bools)

section \<open>Templating: facts\<close>

lemma first_failure_append:
  "first_failure jinja ctx (xs @ ys) =
     (case first_failure jinja ctx xs of
        Some f \<Rightarrow> Some f
      | None \<Rightarrow> first_failure jinja ctx ys)"
  by (induction xs) (auto split: jinja_outcome.splits)

lemma first_failure_not_Rendered: "first_failure jinja ctx ss \<noteq> Some (Rendered out)"
  by (induction ss) (auto split: jinja_outcome.splits)

lemma first_failure_None:
  "first_failure jinja ctx ss = None \<Longrightarrow>
     \<forall>s \<in> set ss. jinja s ctx = Rendered (evaluation jinja ctx s)"
  by (induction ss) (auto simp: evaluation_def split: jinja_outcome.splits)



lemma render_char:
  "render jinja v ctx =
     (case first_failure jinja ctx (tpl_leaves v) of
        None \<Rightarrow> Inr (spec_replace (evaluation jinja ctx) v)
      | Some (TemplateError m) \<Rightarrow> Inl (ValueError (''Template render error: '' @ m))
      | Some (Raised x) \<Rightarrow> Inl (OtherException x)
      | Some (Rendered out) \<Rightarrow> Inr (spec_replace (evaluation jinja ctx) v))"
  "render_list jinja xs ctx =
     (case first_failure jinja ctx (tpl_leaves_list xs) of
        None \<Rightarrow> Inr (spec_replace_list (evaluation jinja ctx) xs)
      | Some (TemplateError m) \<Rightarrow> Inl (ValueError (''Template render error: '' @ m))
      | Some (Raised x) \<Rightarrow> Inl (OtherException x)
      | Some (Rendered out) \<Rightarrow> Inr (spec_replace_list (evaluation jinja ctx) xs))"
  "render_items jinja kvs ctx =
     (case first_failure jinja ctx (tpl_leaves_items kvs) of
        None \<Rightarrow> Inr (spec_replace_items (evaluation jinja ctx) kvs)
      | Some (TemplateError m) \<Rightarrow> Inl (ValueError (''Template render error: '' @ m))
      | Some (Raised x) \<Rightarrow> Inl (OtherException x)
      | Some (Rendered out) \<Rightarrow> Inr (spec_replace_items (evaluation jinja ctx) kvs))"
proof (induction jinja v ctx and jinja xs ctx and jinja kvs ctx
    rule: render_render_list_render_items.induct)
  case (1 jinja val ctx)
  then show ?case
    by (simp add: evaluation_def split: jinja_outcome.splits)
next
  case (9 jinja x xs ctx)
  then show ?case
    by (simp add: first_failure_append first_failure_not_Rendered
        split: option.splits sum.splits jinja_outcome.splits)
next
  case (11 jinja k v kvs ctx)
  then show ?case
    by (simp add: first_failure_append first_failure_not_Rendered
        split: option.splits sum.splits jinja_outcome.splits)
qed (simp_all split: option.splits jinja_outcome.splits)

lemma same_structure_replace:
  "same_structure v (spec_replace f v)"
  "same_structure_list xs (spec_replace_list f xs)"
  "same_structure_items kvs (spec_replace_items f kvs)"
  by (induction f v and f xs and f kvs rule: spec_replace_spec_replace_list_spec_replace_items.induct)
    simp_all

lemma replace_no_leaves:
  "tpl_leaves v = [] \<Longrightarrow> spec_replace f v = v"
  "tpl_leaves_list xs = [] \<Longrightarrow> spec_replace_list f xs = xs"
  "tpl_leaves_items kvs = [] \<Longrightarrow> spec_replace_items f kvs = kvs"
  by (induction f v and f xs and f kvs rule: spec_replace_spec_replace_list_spec_replace_items.induct)
    (simp_all split: if_splits)

lemma same_structure_keys:
  "same_structure_items kvs kws \<Longrightarrow> map fst kws = map fst kvs"
  by (induction kvs arbitrary: kws) (auto split: list.splits)

lemma same_structure_length:
  "same_structure_list xs ys \<Longrightarrow> length ys = length xs"
  by (induction xs arbitrary: ys) (auto split: list.splits)

lemma render_config_char:
  "render_config jinja doc ctx =
     (case first_failure jinja ctx (tpl_leaves doc) of
        None \<Rightarrow>
          if is_dict doc then Inr (spec_replace (evaluation jinja ctx) doc)
          else Inl AssertionError
      | Some (TemplateError m) \<Rightarrow> Inl (ValueError (''Template render error: '' @ m))
      | Some (Raised x) \<Rightarrow> Inl (OtherException x)
      | Some (Rendered out) \<Rightarrow> Inl AssertionError)"
  by (cases doc)
    (simp_all add: render_config_def render_char first_failure_not_Rendered
      split: option.splits jinja_outcome.splits)

lemma render_config_url:
  "render_config jinja (PDict [(''url'', PStr s)]) ctx =
     (if has_tpl s
      then (case jinja s ctx of
              Rendered out \<Rightarrow> Inr (PDict [(''url'', PStr out)])
            | TemplateError e \<Rightarrow> Inl (ValueError (''Template render error: '' @ e))
            | Raised x \<Rightarrow> Inl (OtherException x))
      else Inr (PDict [(''url'', PStr s)]))"
  by (simp add: render_config_def split: jinja_outcome.splits)


lemma has_tpl_url: "has_tpl ''http://{{host}}:{{port}}''"
  by (simp add: has_tpl_def)


lemmas fragment_eval =
  jinja2_def fragment_def env_def parse_expr_def valid_name_def name_start_def name_char_def
  reserved_def int_literal_def trim_spaces_def text_piece_def


lemma engine_url:
  "jinja2 env library ''http://{{host}}:{{port}}'' [(''host'', PStr ''x''), (''port'', PInt 1)]
     = Rendered ''http://x:1''"
  by (simp add: fragment_eval)


lemma engine_lenient:
  "jinja2 (env\<lparr>env_undefined := Undefined\<rparr>) library ''{{missing}}'' [] = Rendered []"
  by (simp add: fragment_eval)









section \<open>Templating: the claims\<close>




text \<open>
  Claim C4. Whenever the render succeeds, its result is the input document with each
  marked string leaf replaced by the engine's text for it, and everything else as it was:
  the same keys at every map, the same length and order at every sequence, the same
  non-string scalars. A document without a marked leaf renders to itself for any
  context, as \<^verbatim>\<open>{"a": 1, "b": [true, null]}\<close> does; and with an engine that renders
  \<^verbatim>\<open>http://{{host}}:{{port}}\<close> under \<^verbatim>\<open>{"host": "x", "port": 1}\<close> to \<^verbatim>\<open>http://x:1\<close>, the document
  \<^verbatim>\<open>{"url": "http://{{host}}:{{port}}"}\<close> renders to \<^verbatim>\<open>{"url": "http://x:1"}\<close>.
\<close>

theorem render_replaces_marked_leaves_only:
  "(render_config jinja doc ctx = Inr r
      \<longrightarrow> r = spec_replace (evaluation jinja ctx) doc
          \<and> (\<forall>s \<in> set (tpl_leaves doc). jinja s ctx = Rendered (evaluation jinja ctx s))
          \<and> same_structure doc r)
   \<and> (is_dict doc \<and> tpl_leaves doc = [] \<longrightarrow> render_config jinja doc ctx = Inr doc)
   \<and> render_config jinja (PDict [(''a'', PInt 1), (''b'', PList [PBool True, PNone])]) ctx
       = Inr (PDict [(''a'', PInt 1), (''b'', PList [PBool True, PNone])])
   \<and> (jinja ''http://{{host}}:{{port}}'' [(''host'', PStr ''x''), (''port'', PInt 1)]
         = Rendered ''http://x:1''
      \<longrightarrow> render_config jinja (PDict [(''url'', PStr ''http://{{host}}:{{port}}'')])
            [(''host'', PStr ''x''), (''port'', PInt 1)]
          = Inr (PDict [(''url'', PStr ''http://x:1'')]))"
proof (intro conjI impI)
  assume ok: "render_config jinja doc ctx = Inr r"
  then have none: "first_failure jinja ctx (tpl_leaves doc) = None"
    by (simp add: render_config_char split: option.splits jinja_outcome.splits)
  with ok show r: "r = spec_replace (evaluation jinja ctx) doc"
    by (simp add: render_config_char split: if_splits)
  from none show "\<forall>s \<in> set (tpl_leaves doc). jinja s ctx = Rendered (evaluation jinja ctx s)"
    by (rule first_failure_None)
  show "same_structure doc r"
    unfolding r by (rule same_structure_replace)
next
  assume "is_dict doc \<and> tpl_leaves doc = []"
  then show "render_config jinja doc ctx = Inr doc"
    by (simp add: render_config_char replace_no_leaves)
next
  show "render_config jinja (PDict [(''a'', PInt 1), (''b'', PList [PBool True, PNone])]) ctx
       = Inr (PDict [(''a'', PInt 1), (''b'', PList [PBool True, PNone])])"
    by (simp add: render_config_def)
next
  assume "jinja ''http://{{host}}:{{port}}'' [(''host'', PStr ''x''), (''port'', PInt 1)]
         = Rendered ''http://x:1''"
  then show "render_config jinja (PDict [(''url'', PStr ''http://{{host}}:{{port}}'')])
            [(''host'', PStr ''x''), (''port'', PInt 1)]
          = Inr (PDict [(''url'', PStr ''http://x:1'')])"
    by (simp add: render_config_url has_tpl_url)
qed

text \<open>The hypotheses of C4 under the module's environment: a document with a marked
  leaf and one without.\<close>

theorem render_replaces_marked_leaves_only_witness:
  "jinja2 env no_library ''http://{{host}}:{{port}}'' [(''host'', PStr ''x''), (''port'', PInt 1)]
     = Rendered ''http://x:1''
   \<and> render_config (jinja2 env no_library) (PDict [(''url'', PStr ''http://{{host}}:{{port}}'')])
        [(''host'', PStr ''x''), (''port'', PInt 1)]
     = Inr (PDict [(''url'', PStr ''http://x:1'')])
   \<and> PDict [(''url'', PStr ''http://x:1'')]
     = spec_replace (evaluation (jinja2 env no_library) [(''host'', PStr ''x''), (''port'', PInt 1)])
         (PDict [(''url'', PStr ''http://{{host}}:{{port}}'')])
   \<and> same_structure (PDict [(''url'', PStr ''http://{{host}}:{{port}}'')])
        (PDict [(''url'', PStr ''http://x:1'')])
   \<and> is_dict (PDict [(''n'', PList [PInt 1, PStr ''plain''])])
   \<and> tpl_leaves (PDict [(''n'', PList [PInt 1, PStr ''plain''])]) = []
   \<and> render_config (jinja2 env no_library) (PDict [(''n'', PList [PInt 1, PStr ''plain''])])
        [(''host'', PStr ''x''), (''port'', PInt 1)]
     = Inr (PDict [(''n'', PList [PInt 1, PStr ''plain''])])"
  using render_replaces_marked_leaves_only
      [of "jinja2 env no_library" "PDict [(''url'', PStr ''http://{{host}}:{{port}}'')]"
        "[(''host'', PStr ''x''), (''port'', PInt 1)]" "PDict [(''url'', PStr ''http://x:1'')]"]
    render_replaces_marked_leaves_only
      [of "jinja2 env no_library" "PDict [(''n'', PList [PInt 1, PStr ''plain''])]"
        "[(''host'', PStr ''x''), (''port'', PInt 1)]" "PDict [(''n'', PList [PInt 1, PStr ''plain''])]"]
  by (simp add: engine_url has_tpl_url has_tpl_def)

section \<open>Store and endpoints: facts and claims\<close>

lemma sql_max_None: "sql_max vs = None \<longleftrightarrow> vs = []"
  by (cases vs) (auto split: option.splits)

lemma sql_max_Max: "vs \<noteq> [] \<Longrightarrow> sql_max vs = Some (Max (set vs))"
proof (induction vs)
  case Nil
  then show ?case by simp
next
  case (Cons v vs)
  show ?case
  proof (cases "vs = []")
    case True
    then show ?thesis by simp
  next
    case False
    with Cons.IH have "sql_max vs = Some (Max (set vs))" by simp
    with False show ?thesis by (simp add: Max_insert)
  qed
qed

lemma versions_of_service:
  "[row_version r. r \<leftarrow> st, row_service r = service] = map row_version (service_rows st service)"
  by (induction st) (simp_all add: service_rows_def)

lemma spec_next_version_rows:
  "spec_next_version st service =
     (if service_rows st service = [] then 1
      else Max (set (map row_version (service_rows st service))) + 1)"
  unfolding spec_next_version_def versions_of_service by (simp add: Let_def)

lemma next_version_eq:
  "(case get_latest_version st service of None \<Rightarrow> 1 | Some m \<Rightarrow> m + 1)
     = spec_next_version st service"
proof (cases "service_rows st service = []")
  case True
  then show ?thesis
    by (simp add: get_latest_version_def spec_next_version_rows)
next
  case False
  then have "sql_max (map row_version (service_rows st service))
      = Some (Max (set (map row_version (service_rows st service))))"
    by (intro sql_max_Max) simp
  with False show ?thesis
    by (simp add: get_latest_version_def spec_next_version_rows)
qed

lemma next_version_fresh:
  "(service, spec_next_version st service) \<notin> set (map (\<lambda>r. (row_service r, row_version r)) st)"
proof
  assume "(service, spec_next_version st service) \<in> set (map (\<lambda>r. (row_service r, row_version r)) st)"
  then obtain r where r: "r \<in> set st" "row_service r = service"
      "row_version r = spec_next_version st service"
    by auto
  then have in_rows: "r \<in> set (service_rows st service)"
    by (simp add: service_rows_def)
  then have ne: "service_rows st service \<noteq> []" by auto
  from in_rows have "row_version r \<le> Max (set (map row_version (service_rows st service)))"
    by (intro Max_ge) auto
  with r(3) ne show False
    by (simp add: spec_next_version_rows)
qed

lemma insert_config_fresh:
  "(service, v) \<notin> set (map (\<lambda>r. (row_service r, row_version r)) st) \<Longrightarrow>
   insert_config st now service (PInt v) payload =
     (Inr (Suc (length st)),
      st @ [\<lparr>row_id = Suc (length st), row_service = service, row_version = v,
             row_payload = payload, row_created_at = now\<rparr>])"
  by (simp add: insert_config_def)

lemma insert_config_conflict:
  "(service, v) \<in> set (map (\<lambda>r. (row_service r, row_version r)) st) \<Longrightarrow>
   insert_config st now service (PInt v) payload = (Inl (DatabaseError UniqueViolation), st)"
  by (simp add: insert_config_def)

lemma save_fresh:
  "(service, v) \<notin> set (map (\<lambda>r. (row_service r, row_version r)) st) \<Longrightarrow>
   save st now service (PInt v) payload =
     (Inr (PDict [(''service'', PStr service), (''version'', PInt v), (''status'', PStr ''saved'')]),
      st @ [\<lparr>row_id = Suc (length st), row_service = service, row_version = v,
             row_payload = payload, row_created_at = now\<rparr>])"
  by (simp add: save_def insert_config_fresh)

lemma save_conflict:
  "(service, v) \<in> set (map (\<lambda>r. (row_service r, row_version r)) st) \<Longrightarrow>
   save st now service (PInt v) payload = (Inl (DatabaseError UniqueViolation), st)"
  by (simp add: save_def insert_config_conflict)

lemma save_not_int:
  "\<forall>v. version \<noteq> PInt v \<Longrightarrow>
   save st now service version payload = (Inl (DatabaseError DatatypeMismatch), st)"
  by (cases version) (simp_all add: save_def insert_config_def)

lemma post_config_auto:
  "validate_config_payload (PDict items) = [] \<Longrightarrow> dict_get items ''version'' = PNone \<Longrightarrow>
   post_config others st now service (PDict items) =
     save (others st) now service (PInt (spec_next_version st service))
       (PDict (AList.update ''version'' (PInt (spec_next_version st service)) items))"
  by (simp add: post_config_def Let_def next_version_eq)

lemma post_config_explicit:
  "validate_config_payload (PDict items) = [] \<Longrightarrow> dict_get items ''version'' \<noteq> PNone \<Longrightarrow>
   post_config others st now service (PDict items) =
     save st now service (dict_get items ''version'') (PDict items)"
  by (simp add: post_config_def Let_def)

lemma service_rows_append:
  "service_rows (st @ [r]) service =
     service_rows st service @ (if row_service r = service then [r] else [])"
  by (simp add: service_rows_def)

lemma dict_get_None_absent: "map_of items k = None \<Longrightarrow> dict_get items k = PNone"
  by (simp add: dict_get_def)

lemma dict_get_Some: "map_of items k = Some v \<Longrightarrow> dict_get items k = v"
  by (simp add: dict_get_def)

lemma dict_get_PInt: "dict_get items k = PInt v \<Longrightarrow> map_of items k = Some (PInt v)"
  by (simp add: dict_get_def split: option.splits)

lemma test_ok:
  "validate_config_payload
     (PDict [(''version'', PInt 1),
             (''database'', PDict [(''host'', PStr ''db''), (''port'', PInt 5432)])]) = []"
  by (simp add: validate_msgs dig_def py_isspace_def)

lemma validate_no_version_ok:
  "validate_config_payload
     (PDict [(''database'', PDict [(''host'', PStr ''db''), (''port'', PInt 5432)])]) = []"
  by (simp add: validate_msgs dig_def py_isspace_def)

lemma save_Inr:
  assumes "save st now service version payload = (Inr body, st')"
  shows "\<exists>v. version = PInt v
     \<and> st' = st @ [\<lparr>row_id = Suc (length st), row_service = service, row_version = v,
                     row_payload = payload, row_created_at = now\<rparr>]
     \<and> body = PDict [(''service'', PStr service), (''version'', PInt v),
                     (''status'', PStr ''saved'')]"
  using assms
  by (cases version) (auto simp: save_def insert_config_def split: if_splits)

lemma save_Inl:
  assumes "save st now service version payload = (Inl e, st')"
  shows "st' = st"
  using assms
  by (cases version) (auto simp: save_def insert_config_def split: if_splits)

lemma map_of_update_version:
  "map_of (AList.update ''version'' v items) ''version'' = Some v"
  by (simp add: update_conv')

lemma post_config_cases:
  obtains (not_dict) "\<forall>items. data \<noteq> PDict items"
      "post_config others st now service data =
         (Inl (BadRequest ''YAML must represent a mapping (object)''), st)"
  | (invalid) items where "data = PDict items" "validate_config_payload data \<noteq> []"
      "post_config others st now service data =
         (Inl (UnprocessableEntity (validate_config_payload data)), st)"
  | (auto) items where "data = PDict items" "validate_config_payload data = []"
      "dict_get items ''version'' = PNone"
      "post_config others st now service data =
         save (others st) now service (PInt (spec_next_version st service))
           (PDict (AList.update ''version'' (PInt (spec_next_version st service)) items))"
  | (explicit) items where "data = PDict items" "validate_config_payload data = []"
      "dict_get items ''version'' \<noteq> PNone"
      "post_config others st now service data =
         save st now service (dict_get items ''version'') data"
proof (cases data)
  case (PDict items)
  show ?thesis
  proof (cases "validate_config_payload data = []")
    case True
    show ?thesis
    proof (cases "dict_get items ''version'' = PNone")
      case v: True
      from PDict True v show ?thesis
        by (intro auto [of items]) (simp_all add: post_config_auto)
    next
      case v: False
      from PDict True v show ?thesis
        by (intro explicit [of items]) (simp_all add: post_config_explicit)
    qed
  next
    case False
    with PDict show ?thesis
      by (intro invalid [of items]) (simp_all add: post_config_def Let_def)
  qed
qed (auto intro!: not_dict simp: post_config_def)

lemma no_rows_of_service:
  "service \<notin> set (map row_service st) \<Longrightarrow> service_rows st service = []"
  by (auto simp: service_rows_def filter_empty_conv)

lemma spec_next_version_first:
  "service \<notin> set (map row_service st) \<Longrightarrow> spec_next_version st service = 1"
  by (simp add: spec_next_version_rows no_rows_of_service)

lemma spec_next_version_second:
  assumes "service \<notin> set (map row_service st)" and "row_service r = service"
    and "row_version r = 1"
  shows "spec_next_version (st @ [r]) service = 2"
  using assms by (simp add: spec_next_version_rows service_rows_append no_rows_of_service)

lemma post_config_saved:
  assumes "map_of items ''version'' = None"
    and "post_config others st now service (PDict items) = (Inr body, st')"
  shows "body = PDict [(''service'', PStr service),
                       (''version'', PInt (spec_next_version st service)),
                       (''status'', PStr ''saved'')]
     \<and> (\<exists>row. st' = others st @ [row] \<and> row_service row = service
          \<and> row_version row = spec_next_version st service
          \<and> row_payload row =
              PDict (AList.update ''version'' (PInt (spec_next_version st service)) items)
          \<and> row_created_at row = now)"
proof -
  from assms(2) have v: "validate_config_payload (PDict items) = []"
    by (auto simp: post_config_def Let_def split: if_splits)
  from assms(1) have "dict_get items ''version'' = PNone"
    by (rule dict_get_None_absent)
  with assms(2) v have "save (others st) now service (PInt (spec_next_version st service))
      (PDict (AList.update ''version'' (PInt (spec_next_version st service)) items))
    = (Inr body, st')"
    by (simp add: post_config_auto)
  from save_Inr [OF this] show ?thesis by auto
qed

text \<open>
  Claim C2. Every submission whose document has no \<open>version\<close> key and which is saved is
  saved under the version the specification's rule gives for the store that was read: 1
  when it holds no row for the service, the largest version among the rows of that
  service plus 1 otherwise. The response carries that version, the row added has it, and
  the payload of the row is the document with that version written into it. This holds
  next to concurrent requests too. Two such submissions in a row, both saved, to a
  service without rows are answered with versions 1 and 2.
\<close>

theorem auto_version_assignment:
  "(map_of items ''version'' = None
       \<and> post_config others st now service (PDict items) = (Inr body, st')
      \<longrightarrow> body = PDict [(''service'', PStr service),
                         (''version'', PInt (spec_next_version st service)),
                         (''status'', PStr ''saved'')]
          \<and> (\<exists>row. st' = others st @ [row] \<and> row_service row = service
               \<and> row_version row = spec_next_version st service
               \<and> row_payload row =
                   PDict (AList.update ''version'' (PInt (spec_next_version st service)) items)
               \<and> row_created_at row = now))
   \<and> (map_of a ''version'' = None \<and> map_of b ''version'' = None
       \<and> service \<notin> set (map row_service st)
       \<and> post_config id st t1 service (PDict a) = (Inr r1, st1)
       \<and> post_config id st1 t2 service (PDict b) = (Inr r2, st2)
      \<longrightarrow> r1 = PDict [(''service'', PStr service), (''version'', PInt 1),
                       (''status'', PStr ''saved'')]
          \<and> r2 = PDict [(''service'', PStr service), (''version'', PInt 2),
                       (''status'', PStr ''saved'')])"
proof (intro conjI impI)
  assume h: "map_of items ''version'' = None
       \<and> post_config others st now service (PDict items) = (Inr body, st')"
  then have s: "body = PDict [(''service'', PStr service),
                       (''version'', PInt (spec_next_version st service)),
                       (''status'', PStr ''saved'')]
     \<and> (\<exists>row. st' = others st @ [row] \<and> row_service row = service
          \<and> row_version row = spec_next_version st service
          \<and> row_payload row =
              PDict (AList.update ''version'' (PInt (spec_next_version st service)) items)
          \<and> row_created_at row = now)"
    by (intro post_config_saved) simp_all
  from s show "body = PDict [(''service'', PStr service),
                         (''version'', PInt (spec_next_version st service)),
                         (''status'', PStr ''saved'')]"
    by (rule conjunct1)
  from s show "\<exists>row. st' = others st @ [row] \<and> row_service row = service
               \<and> row_version row = spec_next_version st service
               \<and> row_payload row =
                   PDict (AList.update ''version'' (PInt (spec_next_version st service)) items)
               \<and> row_created_at row = now"
    by (rule conjunct2)
next
  assume h: "map_of a ''version'' = None \<and> map_of b ''version'' = None
       \<and> service \<notin> set (map row_service st)
       \<and> post_config id st t1 service (PDict a) = (Inr r1, st1)
       \<and> post_config id st1 t2 service (PDict b) = (Inr r2, st2)"
  then have first: "r1 = PDict [(''service'', PStr service),
                       (''version'', PInt (spec_next_version st service)),
                       (''status'', PStr ''saved'')]
     \<and> (\<exists>row. st1 = id st @ [row] \<and> row_service row = service
          \<and> row_version row = spec_next_version st service
          \<and> row_payload row =
              PDict (AList.update ''version'' (PInt (spec_next_version st service)) a)
          \<and> row_created_at row = t1)"
    using post_config_saved [of a id st t1 service r1 st1] by blast
  from h have one: "spec_next_version st service = 1"
    by (simp add: spec_next_version_first)
  with first show "r1 = PDict [(''service'', PStr service), (''version'', PInt 1),
                       (''status'', PStr ''saved'')]"
    by simp
  from first one obtain row where row: "st1 = st @ [row]" "row_service row = service"
      "row_version row = 1"
    by auto
  with h have two: "spec_next_version st1 service = 2"
    by (simp add: spec_next_version_second)
  from h have "r2 = PDict [(''service'', PStr service),
                       (''version'', PInt (spec_next_version st1 service)),
                       (''status'', PStr ''saved'')]
     \<and> (\<exists>row. st2 = id st1 @ [row] \<and> row_service row = service
          \<and> row_version row = spec_next_version st1 service
          \<and> row_payload row =
              PDict (AList.update ''version'' (PInt (spec_next_version st1 service)) b)
          \<and> row_created_at row = t2)"
    using post_config_saved [of b id st1 t2 service r2 st2] by blast
  with two show "r2 = PDict [(''service'', PStr service), (''version'', PInt 2),
                       (''status'', PStr ''saved'')]"
    by simp
qed

text \<open>C2 on a store that holds version 9 of \<^verbatim>\<open>other\<close> and version 1 of \<^verbatim>\<open>svc\<close>: a submission
  for \<^verbatim>\<open>svc\<close> gets 2, and two in a row for \<^verbatim>\<open>new\<close> get 1 and 2.\<close>

theorem auto_version_assignment_witness:
  "validate_config_payload
     (PDict [(''database'', PDict [(''host'', PStr ''db''), (''port'', PInt 5432)])]) = []
   \<and> map_of [(''database'', PDict [(''host'', PStr ''db''), (''port'', PInt 5432)])] ''version''
       = None
   \<and> spec_next_version
        [\<lparr>row_id = 1, row_service = ''other'', row_version = 9, row_payload = PDict [],
          row_created_at = 5\<rparr>,
         \<lparr>row_id = 2, row_service = ''svc'', row_version = 1, row_payload = PDict [],
          row_created_at = 6\<rparr>] ''svc'' = 2
   \<and> fst (post_config id
        [\<lparr>row_id = 1, row_service = ''other'', row_version = 9, row_payload = PDict [],
          row_created_at = 5\<rparr>,
         \<lparr>row_id = 2, row_service = ''svc'', row_version = 1, row_payload = PDict [],
          row_created_at = 6\<rparr>] 20 ''svc''
        (PDict [(''database'', PDict [(''host'', PStr ''db''), (''port'', PInt 5432)])]))
     = Inr (PDict [(''service'', PStr ''svc''), (''version'', PInt 2), (''status'', PStr ''saved'')])
   \<and> ''new'' \<notin> set (map row_service
        [\<lparr>row_id = 1, row_service = ''other'', row_version = 9, row_payload = PDict [],
          row_created_at = 5\<rparr>,
         \<lparr>row_id = 2, row_service = ''svc'', row_version = 1, row_payload = PDict [],
          row_created_at = 6\<rparr>])
   \<and> fst (post_config id
        [\<lparr>row_id = 1, row_service = ''other'', row_version = 9, row_payload = PDict [],
          row_created_at = 5\<rparr>,
         \<lparr>row_id = 2, row_service = ''svc'', row_version = 1, row_payload = PDict [],
          row_created_at = 6\<rparr>] 30 ''new''
        (PDict [(''database'', PDict [(''host'', PStr ''db''), (''port'', PInt 5432)])]))
     = Inr (PDict [(''service'', PStr ''new''), (''version'', PInt 1), (''status'', PStr ''saved'')])
   \<and> fst (post_config id
        (snd (post_config id
          [\<lparr>row_id = 1, row_service = ''other'', row_version = 9, row_payload = PDict [],
            row_created_at = 5\<rparr>,
           \<lparr>row_id = 2, row_service = ''svc'', row_version = 1, row_payload = PDict [],
            row_created_at = 6\<rparr>] 30 ''new''
          (PDict [(''database'', PDict [(''host'', PStr ''db''), (''port'', PInt 5432)])])))
        40 ''new''
        (PDict [(''database'', PDict [(''host'', PStr ''db''), (''port'', PInt 5432)])]))
     = Inr (PDict [(''service'', PStr ''new''), (''version'', PInt 2), (''status'', PStr ''saved'')])"
proof -
  let ?doc = "[(''database'', PDict [(''host'', PStr ''db''), (''port'', PInt 5432)])]"
  let ?st = "[\<lparr>row_id = 1, row_service = ''other'', row_version = 9, row_payload = PDict [],
          row_created_at = 5\<rparr>,
         \<lparr>row_id = 2, row_service = ''svc'', row_version = 1, row_payload = PDict [],
          row_created_at = 6\<rparr>]"
  have v: "validate_config_payload (PDict ?doc) = []"
    by (rule validate_no_version_ok)
  have m: "map_of ?doc ''version'' = None" by simp
  have n2: "spec_next_version ?st ''svc'' = 2"
    by (simp add: spec_next_version_def)
  have saved: "\<And>st now service. \<exists>body st'.
      post_config id st now service (PDict ?doc) = (Inr body, st')"
    using v by (simp add: post_config_auto dict_get_None_absent
        save_fresh [OF next_version_fresh])
  obtain r0 st0 where p0: "post_config id ?st 20 ''svc'' (PDict ?doc) = (Inr r0, st0)"
    using saved by blast
  obtain r1 st1 where p1: "post_config id ?st 30 ''new'' (PDict ?doc) = (Inr r1, st1)"
    using saved by blast
  obtain r2 st2 where p2: "post_config id st1 40 ''new'' (PDict ?doc) = (Inr r2, st2)"
    using saved by blast
  have r0: "r0 = PDict [(''service'', PStr ''svc''), (''version'', PInt 2),
                        (''status'', PStr ''saved'')]"
    using auto_version_assignment [where items = ?doc and others = id and st = ?st
        and now = 20 and service = "''svc''" and body = r0 and st' = st0] m p0 n2
    by simp
  have pair: "r1 = PDict [(''service'', PStr ''new''), (''version'', PInt 1),
                          (''status'', PStr ''saved'')]
      \<and> r2 = PDict [(''service'', PStr ''new''), (''version'', PInt 2),
                          (''status'', PStr ''saved'')]"
    using auto_version_assignment [where a = ?doc and b = ?doc and st = ?st
        and service = "''new''" and ?t1.0 = 30 and ?t2.0 = 40 and ?r1.0 = r1 and ?r2.0 = r2
        and ?st1.0 = st1 and ?st2.0 = st2] m p1 p2
    by simp
  have s1: "snd (post_config id ?st 30 ''new'' (PDict ?doc)) = st1"
    using p1 by simp
  have f2: "fst (post_config id (snd (post_config id ?st 30 ''new'' (PDict ?doc))) 40 ''new''
      (PDict ?doc)) =
      Inr (PDict [(''service'', PStr ''new''), (''version'', PInt 2), (''status'', PStr ''saved'')])"
    unfolding s1 using p2 pair by simp
  show ?thesis
    using v m n2 p0 r0 p1 pair f2 by simp
qed

text \<open>
  Claim C9. Whenever \<^verbatim>\<open>post_config\<close> answers, exactly one row has been appended, and the
  payload of that row has a \<open>version\<close> key holding the row's own version, which is also
  the version of the response; whenever it raises, no row has been written. When the
  document has no \<open>version\<close> key the persisted payload is the submitted document with the
  assigned number written into it; when it carries an integer \<open>version\<close>, that integer is
  the row's version and the payload is the document as submitted.
\<close>

theorem persisted_payload_has_row_version:
  "(post_config others st now service data = (Inr body, st')
      \<longrightarrow> (\<exists>base row items'.
            (base = st \<or> base = others st) \<and> st' = base @ [row]
          \<and> row_service row = service
          \<and> row_payload row = PDict items'
          \<and> map_of items' ''version'' = Some (PInt (row_version row))
          \<and> body = PDict [(''service'', PStr service), (''version'', PInt (row_version row)),
                          (''status'', PStr ''saved'')]))
   \<and> (post_config others st now service data = (Inl e, st')
      \<longrightarrow> st' = st \<or> st' = others st)
   \<and> (post_config others st now service (PDict items) = (Inr body, st')
       \<and> map_of items ''version'' = None
      \<longrightarrow> row_version (last st') = spec_next_version st service
          \<and> row_payload (last st')
              = PDict (AList.update ''version'' (PInt (spec_next_version st service)) items))
   \<and> (post_config others st now service (PDict items) = (Inr body, st')
       \<and> map_of items ''version'' = Some (PInt v)
      \<longrightarrow> row_version (last st') = v \<and> row_payload (last st') = PDict items)"
proof (intro conjI impI)
  assume ok: "post_config others st now service data = (Inr body, st')"
  show "\<exists>base row items'.
            (base = st \<or> base = others st) \<and> st' = base @ [row]
          \<and> row_service row = service
          \<and> row_payload row = PDict items'
          \<and> map_of items' ''version'' = Some (PInt (row_version row))
          \<and> body = PDict [(''service'', PStr service), (''version'', PInt (row_version row)),
                          (''status'', PStr ''saved'')]"
  proof (cases rule: post_config_cases
      [where data = data and others = others and st = st and now = now and service = service])
    case not_dict
    with ok show ?thesis by simp
  next
    case (invalid items)
    with ok show ?thesis by simp
  next
    case (auto items)
    with ok have "save (others st) now service (PInt (spec_next_version st service))
           (PDict (AList.update ''version'' (PInt (spec_next_version st service)) items))
         = (Inr body, st')"
      by simp
    from save_Inr [OF this] show ?thesis
      by (auto simp: map_of_update_version)
  next
    case (explicit items)
    with ok have "save st now service (dict_get items ''version'') (PDict items) = (Inr body, st')"
      by simp
    from save_Inr [OF this] show ?thesis
      by (auto dest: dict_get_PInt)
  qed
next
  assume bad: "post_config others st now service data = (Inl e, st')"
  show "st' = st \<or> st' = others st"
  proof (cases rule: post_config_cases
      [where data = data and others = others and st = st and now = now and service = service])
    case not_dict
    with bad show ?thesis by simp
  next
    case (invalid items)
    with bad show ?thesis by simp
  next
    case (auto items)
    with bad have "save (others st) now service (PInt (spec_next_version st service))
           (PDict (AList.update ''version'' (PInt (spec_next_version st service)) items))
         = (Inl e, st')"
      by simp
    from save_Inl [OF this] show ?thesis by simp
  next
    case (explicit items)
    with bad have "save st now service (dict_get items ''version'') data = (Inl e, st')"
      by simp
    from save_Inl [OF this] show ?thesis by simp
  qed
next
  assume h: "post_config others st now service (PDict items) = (Inr body, st')
       \<and> map_of items ''version'' = None"
  then have v: "validate_config_payload (PDict items) = []"
    by (auto simp: post_config_def Let_def split: if_splits)
  from h have "dict_get items ''version'' = PNone"
    by (simp add: dict_get_None_absent)
  with h v have s: "save (others st) now service (PInt (spec_next_version st service))
           (PDict (AList.update ''version'' (PInt (spec_next_version st service)) items))
         = (Inr body, st')"
    by (simp add: post_config_auto)
  from save_Inr [OF s] show "row_version (last st') = spec_next_version st service" by auto
  from save_Inr [OF s] show "row_payload (last st')
              = PDict (AList.update ''version'' (PInt (spec_next_version st service)) items)"
    by auto
next
  assume h: "post_config others st now service (PDict items) = (Inr body, st')
       \<and> map_of items ''version'' = Some (PInt v)"
  then have val: "validate_config_payload (PDict items) = []"
    by (auto simp: post_config_def Let_def split: if_splits)
  from h have "dict_get items ''version'' = PInt v"
    by (simp add: dict_get_Some)
  with h val have s: "save st now service (PInt v) (PDict items) = (Inr body, st')"
    by (simp add: post_config_explicit)
  from save_Inr [OF s] show "row_version (last st') = v" by auto
  from save_Inr [OF s] show "row_payload (last st') = PDict items" by auto
qed

text \<open>
  Claim C1, as the code has it. When the insert meets an existing \<open>(service, version)\<close>,
  \<^verbatim>\<open>post_config\<close> lets the store's exception through, whatever the origin of the version:
  for a version given by the caller and for one it assigned itself (the row having been
  written by another request after the maximum was read) the response is the generic
  500 \<^verbatim>\<open>internal server error\<close>, nothing is written, and no second attempt is made.
\<close>

theorem conflict_is_internal_error:
  "(validate_config_payload (PDict items) = [] \<and> dict_get items ''version'' = PInt v
     \<and> (service, v) \<in> set (map (\<lambda>r. (row_service r, row_version r)) st)
      \<longrightarrow> post_config others st now service (PDict items)
            = (Inl (DatabaseError UniqueViolation), st)
        \<and> post_config_route others st now service (PDict items)
            = ((500, PDict [(''error'', PStr ''internal server error'')]), st))
   \<and> (validate_config_payload (PDict items) = [] \<and> dict_get items ''version'' = PNone
     \<and> (service, spec_next_version st service)
          \<in> set (map (\<lambda>r. (row_service r, row_version r)) (others st))
      \<longrightarrow> post_config others st now service (PDict items)
            = (Inl (DatabaseError UniqueViolation), others st)
        \<and> post_config_route others st now service (PDict items)
            = ((500, PDict [(''error'', PStr ''internal server error'')]), others st))"
proof (intro conjI impI)
  assume h: "validate_config_payload (PDict items) = [] \<and> dict_get items ''version'' = PInt v
     \<and> (service, v) \<in> set (map (\<lambda>r. (row_service r, row_version r)) st)"
  then have "save st now service (PInt v) (PDict items) = (Inl (DatabaseError UniqueViolation), st)"
    by (intro save_conflict) simp
  with h show p: "post_config others st now service (PDict items)
            = (Inl (DatabaseError UniqueViolation), st)"
    by (simp add: post_config_explicit)
  show "post_config_route others st now service (PDict items)
            = ((500, PDict [(''error'', PStr ''internal server error'')]), st)"
    unfolding post_config_route_def p by (simp add: json_response_def)
next
  assume h: "validate_config_payload (PDict items) = [] \<and> dict_get items ''version'' = PNone
     \<and> (service, spec_next_version st service)
          \<in> set (map (\<lambda>r. (row_service r, row_version r)) (others st))"
  then have "save (others st) now service (PInt (spec_next_version st service))
        (PDict (AList.update ''version'' (PInt (spec_next_version st service)) items))
      = (Inl (DatabaseError UniqueViolation), others st)"
    by (intro save_conflict) simp
  with h show p: "post_config others st now service (PDict items)
            = (Inl (DatabaseError UniqueViolation), others st)"
    by (simp add: post_config_auto)
  show "post_config_route others st now service (PDict items)
            = ((500, PDict [(''error'', PStr ''internal server error'')]), others st)"
    unfolding post_config_route_def p by (simp add: json_response_def)
qed

lemma history_rows_sorted:
  "sorted_wrt (\<lambda>a b. row_created_at b \<le> row_created_at a) (history_rows st service n)"
proof -
  let ?s = "sort_key (\<lambda>r. - row_created_at r) (service_rows st service)"
  have "sorted (map (\<lambda>r. - row_created_at r) ?s)"
    by (rule sorted_sort_key)
  then have "sorted_wrt (\<lambda>a b. row_created_at b \<le> row_created_at a) ?s"
    by (simp add: sorted_map)
  then show ?thesis
    unfolding history_rows_def by (rule sorted_wrt_take)
qed

lemma history_rows_subset:
  "set (history_rows st service n) \<subseteq> set (service_rows st service)"
  unfolding history_rows_def using set_take_subset [of n "sort_key (\<lambda>r. - row_created_at r) (service_rows st service)"]
  by simp

lemma history_rows_length:
  "length (history_rows st service n) = min n (length (service_rows st service))"
  by (simp add: history_rows_def min.commute)

lemma history_rows_most_recent:
  assumes "h \<in> set (history_rows st service n)"
    and "r \<in> set (service_rows st service)"
    and "r \<notin> set (history_rows st service n)"
  shows "row_created_at r \<le> row_created_at h"
proof -
  let ?s = "sort_key (\<lambda>r. - row_created_at r) (service_rows st service)"
  have "sorted (map (\<lambda>r. - row_created_at r) ?s)"
    by (rule sorted_sort_key)
  then have "sorted_wrt (\<lambda>a b. row_created_at b \<le> row_created_at a) (take n ?s @ drop n ?s)"
    by (simp add: sorted_map)
  then have sep: "\<forall>x \<in> set (take n ?s). \<forall>y \<in> set (drop n ?s). row_created_at y \<le> row_created_at x"
    unfolding sorted_wrt_append by blast
  have "set ?s = set (take n ?s) \<union> set (drop n ?s)"
    by (metis append_take_drop_id set_append)
  with assms(2,3) have "r \<in> set (drop n ?s)"
    by (auto simp: history_rows_def)
  with sep assms(1) show ?thesis
    by (simp add: history_rows_def)
qed

lemma no_rows_fresh:
  "service_rows st service = [] \<Longrightarrow> row_service r = service \<Longrightarrow> r \<notin> set st"
  by (auto simp: service_rows_def filter_empty_conv)

lemma insert_config_snd:
  "snd (insert_config st now service (PInt v) payload) =
     (if (service, v) \<in> set (map (\<lambda>r. (row_service r, row_version r)) st) then st
      else st @ [\<lparr>row_id = Suc (length st), row_service = service, row_version = v,
             row_payload = payload, row_created_at = now\<rparr>])"
  by (simp add: insert_config_def)

lemma five_rows:
  assumes "service_rows st service = []"
  shows "service_rows
     (foldl (\<lambda>s (v, t, p). snd (insert_config s t service (PInt v) p)) st
        [(1, t1, p1), (2, t2, p2), (3, t3, p3), (4, t4, p4), (5, t5, p5)]) service
    = [\<lparr>row_id = Suc (length st), row_service = service, row_version = 1,
             row_payload = p1, row_created_at = t1\<rparr>,
       \<lparr>row_id = Suc (Suc (length st)), row_service = service, row_version = 2,
             row_payload = p2, row_created_at = t2\<rparr>,
       \<lparr>row_id = Suc (Suc (Suc (length st))), row_service = service, row_version = 3,
             row_payload = p3, row_created_at = t3\<rparr>,
       \<lparr>row_id = Suc (Suc (Suc (Suc (length st)))), row_service = service, row_version = 4,
             row_payload = p4, row_created_at = t4\<rparr>,
       \<lparr>row_id = Suc (Suc (Suc (Suc (Suc (length st))))), row_service = service, row_version = 5,
             row_payload = p5, row_created_at = t5\<rparr>]"
proof -
  from assms have "\<And>v. (service, v) \<notin> (\<lambda>r. (row_service r, row_version r)) ` set st"
    by (auto simp: service_rows_def filter_empty_conv)
  with assms show ?thesis
    by (simp add: insert_config_snd service_rows_def)
qed

lemma history_of_five:
  assumes "t1 < t2" "t2 < t3" "t3 < t4" "t4 < (t5 :: int)"
  shows "take 3 (sort_key (\<lambda>r. - row_created_at r)
      [\<lparr>row_id = i1, row_service = service, row_version = 1,
             row_payload = p1, row_created_at = t1\<rparr>,
       \<lparr>row_id = i2, row_service = service, row_version = 2,
             row_payload = p2, row_created_at = t2\<rparr>,
       \<lparr>row_id = i3, row_service = service, row_version = 3,
             row_payload = p3, row_created_at = t3\<rparr>,
       \<lparr>row_id = i4, row_service = service, row_version = 4,
             row_payload = p4, row_created_at = t4\<rparr>,
       \<lparr>row_id = i5, row_service = service, row_version = 5,
             row_payload = p5, row_created_at = t5\<rparr>])
    = [\<lparr>row_id = i5, row_service = service, row_version = 5,
             row_payload = p5, row_created_at = t5\<rparr>,
       \<lparr>row_id = i4, row_service = service, row_version = 4,
             row_payload = p4, row_created_at = t4\<rparr>,
       \<lparr>row_id = i3, row_service = service, row_version = 3,
             row_payload = p3, row_created_at = t3\<rparr>]"
  using assms by simp

text \<open>
  Claim C8. For a limit that is not negative, \<^verbatim>\<open>get_history\<close> returns the pairs
  \<open>(version, created_at)\<close> of at most \<open>limit\<close> rows of the service, ordered by
  \<open>created_at\<close> with the most recent first, and no row left out is more recent than a row
  returned; the history route returns at most 50 entries. After inserting versions 1 to
  5 for a service without rows, at strictly increasing store times, the history with
  limit 3 is versions 5, 4, 3 in that order.
\<close>

theorem history_most_recent_first:
  "(0 \<le> limit
      \<longrightarrow> get_history to_char st service limit
            = Inr (map (\<lambda>r. (row_version r, to_char (row_created_at r)))
                     (history_rows st service (nat limit)))
          \<and> int (length (history_rows st service (nat limit))) \<le> limit)
   \<and> sorted_wrt (\<lambda>a b. row_created_at b \<le> row_created_at a) (history_rows st service n)
   \<and> set (history_rows st service n) \<subseteq> set (service_rows st service)
   \<and> (\<forall>h \<in> set (history_rows st service n). \<forall>r \<in> set (service_rows st service).
         r \<notin> set (history_rows st service n) \<longrightarrow> row_created_at r \<le> row_created_at h)
   \<and> (\<exists>items. get_history_route to_char st service = (200, PList items) \<and> length items \<le> 50)
   \<and> (service_rows st service = [] \<and> t1 < t2 \<and> t2 < t3 \<and> t3 < t4 \<and> t4 < t5
      \<longrightarrow> get_history to_char
            (foldl (\<lambda>s (v, t, p). snd (insert_config s t service (PInt v) p)) st
               [(1, t1, p1), (2, t2, p2), (3, t3, p3), (4, t4, p4), (5, t5, p5)])
            service 3
          = Inr [(5, to_char t5), (4, to_char t4), (3, to_char t3)])"
proof (intro conjI impI ballI)
  assume "0 \<le> limit"
  then show "get_history to_char st service limit
            = Inr (map (\<lambda>r. (row_version r, to_char (row_created_at r)))
                     (history_rows st service (nat limit)))"
    by (simp add: get_history_def)
  from \<open>0 \<le> limit\<close> show "int (length (history_rows st service (nat limit))) \<le> limit"
    by (simp add: history_rows_length)
next
  show "sorted_wrt (\<lambda>a b. row_created_at b \<le> row_created_at a) (history_rows st service n)"
    by (rule history_rows_sorted)
next
  show "set (history_rows st service n) \<subseteq> set (service_rows st service)"
    by (rule history_rows_subset)
next
  fix h r
  assume "h \<in> set (history_rows st service n)" "r \<in> set (service_rows st service)"
    "r \<notin> set (history_rows st service n)"
  then show "row_created_at r \<le> row_created_at h"
    by (rule history_rows_most_recent)
next
  show "\<exists>items. get_history_route to_char st service = (200, PList items) \<and> length items \<le> 50"
    by (simp add: get_history_route_def get_history_def json_response_def history_rows_length)
next
  assume h: "service_rows st service = [] \<and> t1 < t2 \<and> t2 < t3 \<and> t3 < t4 \<and> t4 < t5"
  then have rows: "history_rows
      (foldl (\<lambda>s (v, t, p). snd (insert_config s t service (PInt v) p)) st
         [(1, t1, p1), (2, t2, p2), (3, t3, p3), (4, t4, p4), (5, t5, p5)]) service 3
    = [\<lparr>row_id = Suc (Suc (Suc (Suc (Suc (length st))))), row_service = service, row_version = 5,
             row_payload = p5, row_created_at = t5\<rparr>,
       \<lparr>row_id = Suc (Suc (Suc (Suc (length st)))), row_service = service, row_version = 4,
             row_payload = p4, row_created_at = t4\<rparr>,
       \<lparr>row_id = Suc (Suc (Suc (length st))), row_service = service, row_version = 3,
             row_payload = p3, row_created_at = t3\<rparr>]"
    unfolding history_rows_def by (simp only: five_rows history_of_five)
  have nat3: "nat (3::int) = 3" by simp
  show "get_history to_char
            (foldl (\<lambda>s (v, t, p). snd (insert_config s t service (PInt v) p)) st
               [(1, t1, p1), (2, t2, p2), (3, t3, p3), (4, t4, p4), (5, t5, p5)])
            service 3
          = Inr [(5, to_char t5), (4, to_char t4), (3, to_char t3)]"
    unfolding get_history_def nat3 rows by simp
qed

text \<open>C8 with insert times 10, 20, 30, 40, 50 next to a row of another service.\<close>

theorem history_most_recent_first_witness:
  "(0::int) \<le> 3
   \<and> service_rows
        [\<lparr>row_id = 1, row_service = ''other'', row_version = 9, row_payload = PDict [],
          row_created_at = 5\<rparr>] ''svc'' = []
   \<and> (10::int) < 20 \<and> (20::int) < 30 \<and> (30::int) < 40 \<and> (40::int) < 50
   \<and> get_history (\<lambda>t. show_nat (nat t))
        (foldl (\<lambda>s (v, t, p). snd (insert_config s t ''svc'' (PInt v) p))
           [\<lparr>row_id = 1, row_service = ''other'', row_version = 9, row_payload = PDict [],
             row_created_at = 5\<rparr>]
           [(1, 10, PDict []), (2, 20, PDict []), (3, 30, PDict []), (4, 40, PDict []),
            (5, 50, PDict [])])
        ''svc'' 3
     = Inr [(5, ''50''), (4, ''40''), (3, ''30'')]"
  using history_most_recent_first
    [of 3 "\<lambda>t. show_nat (nat t)"
      "[\<lparr>row_id = 1, row_service = ''other'', row_version = 9, row_payload = PDict [],
          row_created_at = 5\<rparr>]" "''svc''" 3 10 20 30 40 50
      "PDict []" "PDict []" "PDict []" "PDict []" "PDict []"]
  by (simp add: service_rows_def)

lemma handle_database_error:
  "handle_errors (DatabaseError e) = (500, PDict [(''error'', PStr ''internal server error'')])"
  by (simp add: json_response_def)

lemma validate_7_ok:
  "validate_config_payload
     (PDict [(''version'', PInt 7),
             (''database'', PDict [(''host'', PStr ''db''), (''port'', PInt 5432)])]) = []"
  by (simp add: validate_msgs dig_def py_isspace_def)

text \<open>
  Claim C1 as stated fails. With version 1 of \<^verbatim>\<open>svc\<close> stored, a submission that names
  version 1 is answered 500 \<^verbatim>\<open>internal server error\<close>, not with a conflict; and a submission
  without a version, for which 2 is computed while another request writes version 2, is
  answered the same way, with no recomputation and no retry (version 3 is never written).
\<close>

theorem conflict_counterexample:
  "post_config_route id
     [\<lparr>row_id = 1, row_service = ''svc'', row_version = 1,
       row_payload = PDict [(''version'', PInt 1),
                            (''database'', PDict [(''host'', PStr ''db''), (''port'', PInt 5432)])],
       row_created_at = 10\<rparr>]
     20 ''svc''
     (PDict [(''version'', PInt 1),
             (''database'', PDict [(''host'', PStr ''db''), (''port'', PInt 5432)])])
   = ((500, PDict [(''error'', PStr ''internal server error'')]),
      [\<lparr>row_id = 1, row_service = ''svc'', row_version = 1,
        row_payload = PDict [(''version'', PInt 1),
                             (''database'', PDict [(''host'', PStr ''db''), (''port'', PInt 5432)])],
        row_created_at = 10\<rparr>])
   \<and> post_config_route
     (\<lambda>s. s @ [\<lparr>row_id = 2, row_service = ''svc'', row_version = 2,
                  row_payload = PDict [(''database'', PDict [(''host'', PStr ''db''), (''port'', PInt 5432)]),
                                       (''version'', PInt 2)],
                  row_created_at = 15\<rparr>])
     [\<lparr>row_id = 1, row_service = ''svc'', row_version = 1,
       row_payload = PDict [(''version'', PInt 1),
                            (''database'', PDict [(''host'', PStr ''db''), (''port'', PInt 5432)])],
       row_created_at = 10\<rparr>]
     20 ''svc''
     (PDict [(''database'', PDict [(''host'', PStr ''db''), (''port'', PInt 5432)])])
   = ((500, PDict [(''error'', PStr ''internal server error'')]),
      [\<lparr>row_id = 1, row_service = ''svc'', row_version = 1,
        row_payload = PDict [(''version'', PInt 1),
                             (''database'', PDict [(''host'', PStr ''db''), (''port'', PInt 5432)])],
        row_created_at = 10\<rparr>,
       \<lparr>row_id = 2, row_service = ''svc'', row_version = 2,
        row_payload = PDict [(''database'', PDict [(''host'', PStr ''db''), (''port'', PInt 5432)]),
                             (''version'', PInt 2)],
        row_created_at = 15\<rparr>])"
  by (simp add: post_config_route_def post_config_explicit post_config_auto test_ok
      validate_no_version_ok dict_get_def save_def insert_config_def spec_next_version_def
      service_rows_def json_response_def)

text \<open>Both hypotheses of C1: a caller's version 1 that exists, and an assigned version 1
  that another request wrote first.\<close>

theorem conflict_is_internal_error_witness:
  "validate_config_payload
     (PDict [(''version'', PInt 1),
             (''database'', PDict [(''host'', PStr ''db''), (''port'', PInt 5432)])]) = []
   \<and> dict_get [(''version'', PInt 1),
               (''database'', PDict [(''host'', PStr ''db''), (''port'', PInt 5432)])] ''version''
       = PInt 1
   \<and> post_config id
        [\<lparr>row_id = 1, row_service = ''api'', row_version = 1, row_payload = PDict [],
          row_created_at = 3\<rparr>] 4 ''api''
        (PDict [(''version'', PInt 1),
                (''database'', PDict [(''host'', PStr ''db''), (''port'', PInt 5432)])])
     = (Inl (DatabaseError UniqueViolation),
        [\<lparr>row_id = 1, row_service = ''api'', row_version = 1, row_payload = PDict [],
          row_created_at = 3\<rparr>])
   \<and> validate_config_payload
        (PDict [(''database'', PDict [(''host'', PStr ''db''), (''port'', PInt 5432)])]) = []
   \<and> dict_get [(''database'', PDict [(''host'', PStr ''db''), (''port'', PInt 5432)])] ''version''
       = PNone
   \<and> post_config_route
        (\<lambda>s. s @ [\<lparr>row_id = 1, row_service = ''api'', row_version = 1, row_payload = PDict [],
                     row_created_at = 3\<rparr>])
        [] 4 ''api''
        (PDict [(''database'', PDict [(''host'', PStr ''db''), (''port'', PInt 5432)])])
     = ((500, PDict [(''error'', PStr ''internal server error'')]),
        [\<lparr>row_id = 1, row_service = ''api'', row_version = 1, row_payload = PDict [],
          row_created_at = 3\<rparr>])"
  using conflict_is_internal_error
      [of "[(''version'', PInt 1),
            (''database'', PDict [(''host'', PStr ''db''), (''port'', PInt 5432)])]" 1 "''api''"
        "[\<lparr>row_id = 1, row_service = ''api'', row_version = 1, row_payload = PDict [],
          row_created_at = 3\<rparr>]" id 4]
    conflict_is_internal_error
      [of "[(''database'', PDict [(''host'', PStr ''db''), (''port'', PInt 5432)])]" 0 "''api''"
        "[]" "\<lambda>s. s @ [\<lparr>row_id = 1, row_service = ''api'', row_version = 1,
                           row_payload = PDict [], row_created_at = 3\<rparr>]" 4]
  by (simp add: test_ok validate_no_version_ok dict_get_def spec_next_version_def service_rows_def)

text \<open>C9 on the empty store: a document without \<open>version\<close>, one with version 7, and a
  body that is not a mapping.\<close>

theorem persisted_payload_has_row_version_witness:
  "post_config id [] 10 ''svc''
     (PDict [(''database'', PDict [(''host'', PStr ''db''), (''port'', PInt 5432)])])
   = (Inr (PDict [(''service'', PStr ''svc''), (''version'', PInt 1), (''status'', PStr ''saved'')]),
      [\<lparr>row_id = 1, row_service = ''svc'', row_version = 1,
        row_payload = PDict [(''database'', PDict [(''host'', PStr ''db''), (''port'', PInt 5432)]),
                             (''version'', PInt 1)],
        row_created_at = 10\<rparr>])
   \<and> map_of [(''database'', PDict [(''host'', PStr ''db''), (''port'', PInt 5432)])] ''version''
       = None
   \<and> map_of [(''database'', PDict [(''host'', PStr ''db''), (''port'', PInt 5432)]),
              (''version'', PInt 1)] ''version'' = Some (PInt 1)
   \<and> spec_next_version [] ''svc'' = 1
   \<and> post_config id [] 10 ''svc''
     (PDict [(''version'', PInt 7),
             (''database'', PDict [(''host'', PStr ''db''), (''port'', PInt 5432)])])
   = (Inr (PDict [(''service'', PStr ''svc''), (''version'', PInt 7), (''status'', PStr ''saved'')]),
      [\<lparr>row_id = 1, row_service = ''svc'', row_version = 7,
        row_payload = PDict [(''version'', PInt 7),
                             (''database'', PDict [(''host'', PStr ''db''), (''port'', PInt 5432)])],
        row_created_at = 10\<rparr>])
   \<and> map_of [(''version'', PInt 7),
              (''database'', PDict [(''host'', PStr ''db''), (''port'', PInt 5432)])] ''version''
       = Some (PInt 7)
   \<and> post_config id [] 10 ''svc'' (PList []) =
       (Inl (BadRequest ''YAML must represent a mapping (object)''), [])"
  using persisted_payload_has_row_version
      [where others = id and st = "[]" and now = 10 and service = "''svc''"
        and data = "PDict [(''database'', PDict [(''host'', PStr ''db''), (''port'', PInt 5432)])]"
        and items = "[(''database'', PDict [(''host'', PStr ''db''), (''port'', PInt 5432)])]"
        and body = "PDict [(''service'', PStr ''svc''), (''version'', PInt 1),
                           (''status'', PStr ''saved'')]"
        and st' = "[\<lparr>row_id = 1, row_service = ''svc'', row_version = 1,
           row_payload = PDict [(''database'', PDict [(''host'', PStr ''db''), (''port'', PInt 5432)]),
                                (''version'', PInt 1)],
           row_created_at = 10\<rparr>]"]
    persisted_payload_has_row_version
      [where others = id and st = "[]" and now = 10 and service = "''svc''"
        and data = "PDict [(''version'', PInt 7),
                           (''database'', PDict [(''host'', PStr ''db''), (''port'', PInt 5432)])]"
        and items = "[(''version'', PInt 7),
                      (''database'', PDict [(''host'', PStr ''db''), (''port'', PInt 5432)])]"
        and v = 7
        and body = "PDict [(''service'', PStr ''svc''), (''version'', PInt 7),
                           (''status'', PStr ''saved'')]"
        and st' = "[\<lparr>row_id = 1, row_service = ''svc'', row_version = 7,
           row_payload = PDict [(''version'', PInt 7),
                                (''database'', PDict [(''host'', PStr ''db''), (''port'', PInt 5432)])],
           row_created_at = 10\<rparr>]"]
    persisted_payload_has_row_version
      [where others = id and st = "[]" and now = 10 and service = "''svc''"
        and data = "PList []" and st' = "[]"
        and e = "BadRequest ''YAML must represent a mapping (object)''"]
  by (simp add: post_config_def Let_def validate_no_version_ok validate_7_ok dict_get_def
      save_def insert_config_def get_latest_version_def spec_next_version_def service_rows_def)

end
